theory Spec2Isabelle
  imports Main
begin

section \<open>JavaScript values and strings\<close>

text \<open>
  The filter model of odata-builder is a set of plain JavaScript objects that the
  visitor tells apart by probing their properties.  A string is modelled as a
  \<^typ>\<open>string\<close>, its characters read as the code units U+0000 to U+00FF.

  Numbers and dates are values of the host.  The library never computes with a number: it
  asks for its \<^verbatim>\<open>typeof\<close> and turns it into text with \<^verbatim>\<open>String(n)\<close> or a template.
  A number is therefore represented by that text (\<^verbatim>\<open>42\<close>, \<^verbatim>\<open>0.5\<close>, \<^verbatim>\<open>1e+21\<close>,
  \<^verbatim>\<open>NaN\<close>, ...).  Of a \<^verbatim>\<open>Date\<close> the library reads the time value (\<^verbatim>\<open>+date\<close>) and the
  text of \<^verbatim>\<open>toISOString()\<close>, its ISO-8601 UTC timestamp; a valid date is represented by
  the two.  An invalid date has the time value \<^verbatim>\<open>NaN\<close> and no timestamp:
  \<^verbatim>\<open>toISOString()\<close> throws a \<^verbatim>\<open>RangeError\<close>.

  \<open>VUnknown t\<close> stands for any other runtime value (an object, \<^verbatim>\<open>undefined\<close>,
  a function, ...), carrying what \<^verbatim>\<open>typeof\<close> answers for it.
\<close>

datatype jsdate = InvalidDate | ValidDate int string

datatype jsvalue =
    VNull
  | VStr string
  | VNum string
  | VBool bool
  | VDate jsdate
  | VUnknown string

fun typeof :: "jsvalue \<Rightarrow> string" where
  "typeof VNull = ''object''"
| "typeof (VStr s) = ''string''"
| "typeof (VNum n) = ''number''"
| "typeof (VBool b) = ''boolean''"
| "typeof (VDate d) = ''object''"
| "typeof (VUnknown t) = t"

text \<open>
  Every failure of the library is a thrown \<^verbatim>\<open>Error\<close>, told from the others by its
  message; a constructor stands for one message, with the data the message carries.
  \<open>UnsupportedValueType t\<close> is \<^verbatim>\<open>Unsupported value type: t\<close>, which both
  \<^verbatim>\<open>visitBasicFilter\<close> and \<^verbatim>\<open>formatValue\<close> throw.  \<open>TypeError\<close> and \<open>RangeError\<close> are the
  errors of the runtime itself (a call of something that is not a function, a property read on
  \<^verbatim>\<open>undefined\<close>, \<^verbatim>\<open>toISOString\<close> on an invalid date); \<open>HostDependent\<close> marks a result that
  the host decides, not the library.
\<close>

datatype error =
    MissingValue
  | UnsupportedValueType string
  | InvalidOperator string string
  | InvalidLambdaFilter
  | InvalidLambdaExpression
  | InvalidSubFilter
  | InvalidNegatedInner
  | InvalidFilter
  | UnsupportedInValueType string
  | UnsupportedDateTransform string
  | MissingFunctionType
  | UnsupportedFunctionType string
  | UnsupportedFieldReference
  | MissingOperand
  | TypeError string
  | RangeError string
  | HostDependent string
  | EmptyBuilder string
  | EmptyNegation
  | EmptyGroup
  | InvalidInput
  | InvalidPredicateReturn

subsection \<open>String primitives\<close>

definition digit :: "nat \<Rightarrow> char" where
  "digit n = ''0123456789'' ! n"

fun showNat :: "nat \<Rightarrow> string" where
  "showNat n = (if n < 10 then [digit n] else showNat (n div 10) @ [digit (n mod 10)])"

declare showNat.simps [simp del]

definition showInt :: "int \<Rightarrow> string" where
  "showInt i = (if i < 0 then CHR ''-'' # showNat (nat (- i)) else showNat (nat i))"

text \<open>
  The text of a number that a \<^verbatim>\<open>getUTC...\<close> accessor returns: an integer of small
  magnitude, printed in decimal, or \<^verbatim>\<open>NaN\<close> (\<open>None\<close>) on an invalid date.
\<close>

definition accessorText :: "int option \<Rightarrow> string" where
  "accessorText r = (case r of None \<Rightarrow> ''NaN'' | Some i \<Rightarrow> showInt i)"

definition showBool :: "bool \<Rightarrow> string" where
  "showBool b = (if b then ''true'' else ''false'')"

fun join :: "string \<Rightarrow> string list \<Rightarrow> string" where
  "join sep [] = []"
| "join sep [x] = x"
| "join sep (x # y # ys) = x @ sep @ join sep (y # ys)"

definition includesSpace :: "string \<Rightarrow> bool" where
  "includesSpace s = (CHR '' '' \<in> set s)"

text \<open>
  \<^verbatim>\<open>toLowerCase\<close> on the code units U+0000 to U+00FF: the letters A to Z and the
  letters U+00C0 to U+00DE other than the multiplication sign U+00D7 move up by 32, every
  other code unit stays.
\<close>

definition lowerChar :: "char \<Rightarrow> char" where
  "lowerChar c =
     (let k = (of_char c :: nat)
      in if (65 \<le> k \<and> k \<le> 90) \<or> (192 \<le> k \<and> k \<le> 222 \<and> k \<noteq> 215)
         then char_of (k + 32) else c)"

definition toLowerCase :: "string \<Rightarrow> string" where
  "toLowerCase s = map lowerChar s"

fun escapeQuotes :: "string \<Rightarrow> string" where
  "escapeQuotes [] = []"
| "escapeQuotes (c # cs) =
     (if c = CHR 0x27 then CHR 0x27 # CHR 0x27 # escapeQuotes cs else c # escapeQuotes cs)"

definition quoted :: "string \<Rightarrow> string" where
  "quoted s = CHR 0x27 # s @ [CHR 0x27]"

subsection \<open>Dates\<close>

text \<open>
  The UTC calendar fields of a time value, as the \<^verbatim>\<open>getUTC...\<close> accessors of
  \<^verbatim>\<open>Date\<close> give them for \<^verbatim>\<open>new Date(t)\<close>.
\<close>

definition msPerDay :: int where
  "msPerDay = 86400000"

definition civilFromDays :: "int \<Rightarrow> int \<times> int \<times> int" where
  "civilFromDays z0 =
     (let z = z0 + 719468;
          era = z div 146097;
          doe = z - era * 146097;
          yoe = (doe - doe div 1460 + doe div 36524 - doe div 146096) div 365;
          doy = doe - (365 * yoe + yoe div 4 - yoe div 100);
          mp = (5 * doy + 2) div 153;
          d = doy - (153 * mp + 2) div 5 + 1;
          m = (if mp < 10 then mp + 3 else mp - 9);
          y = yoe + era * 400 + (if m \<le> 2 then 1 else 0)
      in (y, m, d))"

definition getUTCFullYear :: "int \<Rightarrow> int" where
  "getUTCFullYear t = fst (civilFromDays (t div msPerDay))"

definition getUTCMonth :: "int \<Rightarrow> int" where
  "getUTCMonth t = fst (snd (civilFromDays (t div msPerDay))) - 1"

definition getUTCDate :: "int \<Rightarrow> int" where
  "getUTCDate t = snd (snd (civilFromDays (t div msPerDay)))"

definition getUTCHours :: "int \<Rightarrow> int" where
  "getUTCHours t = (t mod msPerDay) div 3600000"

definition getUTCMinutes :: "int \<Rightarrow> int" where
  "getUTCMinutes t = ((t mod msPerDay) div 60000) mod 60"

definition getUTCSeconds :: "int \<Rightarrow> int" where
  "getUTCSeconds t = ((t mod msPerDay) div 1000) mod 60"

text \<open>
  The accessors on a date, \<open>None\<close> for \<^verbatim>\<open>NaN\<close>, and \<^verbatim>\<open>toISOString\<close>.
\<close>

fun timeValue :: "jsdate \<Rightarrow> int option" where
  "timeValue InvalidDate = None"
| "timeValue (ValidDate t stamp) = Some t"

fun toISOString :: "jsdate \<Rightarrow> error + string" where
  "toISOString InvalidDate = Inl (RangeError ''Invalid time value'')"
| "toISOString (ValidDate t stamp) = Inr stamp"

section \<open>Type classifier and operator table (filter-helper.util)\<close>

definition isHexDigit :: "char \<Rightarrow> bool" where
  "isHexDigit c = (c \<in> set ''0123456789abcdefABCDEF'')"

text \<open>
  The pattern \<^verbatim>\<open>/^[0-9a-f]{8}-[0-9a-f]{4}-[0-9a-f]{4}-[0-9a-f]{4}-[0-9a-f]{12}$/i\<close>,
  position by position: \<open>True\<close> asks for a hexadecimal digit, \<open>False\<close> for a hyphen.
\<close>

definition guidPattern :: "bool list" where
  "guidPattern =
     replicate 8 True @ [False] @ replicate 4 True @ [False] @ replicate 4 True @ [False] @
     replicate 4 True @ [False] @ replicate 12 True"

definition isGuidString :: "string \<Rightarrow> bool" where
  "isGuidString s = list_all2 (\<lambda>c h. if h then isHexDigit c else c = CHR ''-'') s guidPattern"

fun isGuid :: "jsvalue \<Rightarrow> bool" where
  "isGuid (VStr s) = isGuidString s"
| "isGuid _ = False"

fun getValueType :: "jsvalue \<Rightarrow> string" where
  "getValueType VNull = ''null''"
| "getValueType (VDate d) = ''Date''"
| "getValueType (VStr s) = (if isGuidString s then ''Guid'' else ''string'')"
| "getValueType (VNum n) = ''number''"
| "getValueType (VBool b) = ''boolean''"
| "getValueType (VUnknown t) = ''unknown''"

definition operatorTypeMap :: "(string \<times> string list) list" where
  "operatorTypeMap =
     [(''string'', [''eq'', ''ne'', ''contains'', ''startswith'', ''endswith'', ''substringof'',
                    ''indexof'', ''concat'']),
      (''number'', [''eq'', ''ne'', ''lt'', ''le'', ''gt'', ''ge'']),
      (''boolean'', [''eq'', ''ne'']),
      (''Date'', [''eq'', ''ne'', ''lt'', ''le'', ''gt'', ''ge'']),
      (''Guid'', [''eq'', ''ne'']),
      (''null'', [''eq'', ''ne''])]"

text \<open>
  \<^verbatim>\<open>operatorTypeMap\<close> is an object literal, so \<^verbatim>\<open>operatorTypeMap[type]\<close> also finds
  the properties every object inherits from \<^verbatim>\<open>Object.prototype\<close>.  Each of them is a
  function (or, for \<^verbatim>\<open>__proto__\<close>, the prototype object): truthy, and without an
  \<^verbatim>\<open>includes\<close> method, so the call \<^verbatim>\<open>validOperators.includes(operator)\<close> raises
  a \<^verbatim>\<open>TypeError\<close>.
\<close>

definition objectPrototypeKeys :: "string list" where
  "objectPrototypeKeys =
     [''constructor'', ''hasOwnProperty'', ''isPrototypeOf'', ''propertyIsEnumerable'',
      ''toLocaleString'', ''toString'', ''valueOf'', ''__proto__'', ''__defineGetter__'',
      ''__defineSetter__'', ''__lookupGetter__'', ''__lookupSetter__'']"

definition isValidOperator :: "string \<Rightarrow> string \<Rightarrow> error + bool" where
  "isValidOperator type opr =
     (case map_of operatorTypeMap type of
        Some validOperators \<Rightarrow> Inr (opr \<in> set validOperators)
      | None \<Rightarrow>
          if type \<in> set objectPrototypeKeys
          then Inl (TypeError ''validOperators.includes is not a function'')
          else Inr False)"

section \<open>The filter expression model (query-filter.type)\<close>

datatype transform =
    Tolower | Toupper | Trim | Length
  | Round | Floor | Ceiling
  | Year | Month | Day | Hour | Minute | Second

fun transformName :: "transform \<Rightarrow> string" where
  "transformName Tolower = ''tolower''"
| "transformName Toupper = ''toupper''"
| "transformName Trim = ''trim''"
| "transformName Length = ''length''"
| "transformName Round = ''round''"
| "transformName Floor = ''floor''"
| "transformName Ceiling = ''ceiling''"
| "transformName Year = ''year''"
| "transformName Month = ''month''"
| "transformName Day = ''day''"
| "transformName Hour = ''hour''"
| "transformName Minute = ''minute''"
| "transformName Second = ''second''"

text \<open>
  The visitor asks both whether the \<^verbatim>\<open>transform\<close> property is present
  (\<^verbatim>\<open>'transform' in filter\<close>) and what it holds, and \<^verbatim>\<open>visitLambdaFilter\<close> creates
  the property with the value \<^verbatim>\<open>undefined\<close>; the three states are kept apart.
\<close>

datatype transformProp = TAbsent | TUndefined | TList "transform list"

datatype arithmeticOperator = Add | Sub | Mul | Div | Mod

fun arithmeticName :: "arithmeticOperator \<Rightarrow> string" where
  "arithmeticName Add = ''add''"
| "arithmeticName Sub = ''sub''"
| "arithmeticName Mul = ''mul''"
| "arithmeticName Div = ''div''"
| "arithmeticName Mod = ''mod''"

text \<open>
  The argument of \<^verbatim>\<open>date\<close> and \<^verbatim>\<open>time\<close>: a plain string, or a
  \<^verbatim>\<open>{ fieldReference: ... }\<close> object.
\<close>

datatype fieldArgument = FieldName string | FieldReference string

text \<open>
  Function descriptors, by their \<^verbatim>\<open>type\<close> tag.  \<open>OtherFunction t\<close> is a descriptor
  with any other tag \<open>t\<close> (the empty string when the tag is missing); the operand of an
  arithmetic descriptor and the length of \<^verbatim>\<open>substring\<close> may be missing.  An argument is
  any value: a \<^verbatim>\<open>{ fieldReference: ... }\<close> object, which the types allow in place of a
  literal, is the value \<open>VUnknown ''object''\<close>.
\<close>

datatype functionDefinition =
    Concat "jsvalue list"
  | Contains jsvalue
  | Endswith jsvalue
  | Indexof jsvalue
  | LengthOf
  | Startswith jsvalue
  | Substring jsvalue "jsvalue option"
  | Arithmetic arithmeticOperator "jsvalue option"
  | Now
  | DateOf fieldArgument
  | TimeOf fieldArgument
  | OtherFunction string

fun functionType :: "functionDefinition \<Rightarrow> string" where
  "functionType (Concat vs) = ''concat''"
| "functionType (Contains v) = ''contains''"
| "functionType (Endswith v) = ''endswith''"
| "functionType (Indexof v) = ''indexof''"
| "functionType LengthOf = ''length''"
| "functionType (Startswith v) = ''startswith''"
| "functionType (Substring st len) = ''substring''"
| "functionType (Arithmetic opr v) = arithmeticName opr"
| "functionType Now = ''now''"
| "functionType (DateOf f) = ''date''"
| "functionType (TimeOf f) = ''time''"
| "functionType (OtherFunction t) = t"

text \<open>
  An object with \<^verbatim>\<open>field\<close>, \<^verbatim>\<open>operator\<close> and (possibly) \<^verbatim>\<open>value\<close>: a comparison,
  a string predicate, or an enum-flag test (operator \<^verbatim>\<open>has\<close>).  \<open>val = None\<close> says that
  the object has no \<^verbatim>\<open>value\<close> property.
\<close>

record basicFilter =
  field :: string
  operator :: string
  val :: "jsvalue option"
  transform :: transformProp
  ignoreCase :: bool
  removeQuotes :: bool
  func :: "functionDefinition option"

datatype logic = And | Or

fun logicName :: "logic \<Rightarrow> string" where
  "logicName And = ''and''"
| "logicName Or = ''or''"

datatype queryFilter =
    Basic basicFilter
  | Lambda string string queryFilter
  | In string "jsvalue list"
  | Negated queryFilter
  | Combined logic "queryFilter list"

text \<open>The enum-flag test \<^verbatim>\<open>{ field, operator: 'has', value }\<close> the dispatcher creates.\<close>

definition hasFilter :: "string \<Rightarrow> string \<Rightarrow> queryFilter" where
  "hasFilter f v =
     Basic \<lparr>field = f, operator = ''has'', val = Some (VStr v), transform = TAbsent,
            ignoreCase = False, removeQuotes = False, func = None\<rparr>"

text \<open>A comparison \<^verbatim>\<open>{ field, operator, value }\<close> with no other property.\<close>

definition comparison :: "string \<Rightarrow> string \<Rightarrow> jsvalue \<Rightarrow> basicFilter" where
  "comparison f opr v =
     \<lparr>field = f, operator = opr, val = Some v, transform = TAbsent,
      ignoreCase = False, removeQuotes = False, func = None\<rparr>"

subsection \<open>Structural type guards (filter-utils)\<close>

fun isBasicFilter :: "queryFilter \<Rightarrow> bool" where
  "isBasicFilter (Basic b) = (val b \<noteq> None)"
| "isBasicFilter _ = False"

fun isInFilter :: "queryFilter \<Rightarrow> bool" where
  "isInFilter (In f vs) = True"
| "isInFilter _ = False"

fun isNegatedFilter :: "queryFilter \<Rightarrow> bool" where
  "isNegatedFilter (Negated f) = True"
| "isNegatedFilter _ = False"

fun isHasFilter :: "queryFilter \<Rightarrow> bool" where
  "isHasFilter (Basic b) = (operator b = ''has'' \<and> val b \<noteq> None)"
| "isHasFilter _ = False"

text \<open>
  Modelled from the spec: \<^verbatim>\<open>isCombinedFilter\<close> (combined-filter-util is not among the
  sources).  The guard recognises the Combined variant by its tag.
\<close>

fun isCombinedFilter :: "queryFilter \<Rightarrow> bool" where
  "isCombinedFilter (Combined l fs) = True"
| "isCombinedFilter _ = False"

fun isLambdaFilter :: "queryFilter \<Rightarrow> bool" where
  "isLambdaFilter (Lambda f opr e) = (isBasicFilter e \<or> isCombinedFilter e \<or> isLambdaFilter e)"
| "isLambdaFilter _ = False"

text \<open>The visitor's own guard of the same name, at the end of filter-visitor.ts.\<close>

fun isLambdaFilter_visitor :: "queryFilter \<Rightarrow> bool" where
  "isLambdaFilter_visitor (Lambda f opr e) = True"
| "isLambdaFilter_visitor _ = False"

section \<open>The serialization visitor (flt-visitor)\<close>

record filterRenderContext =
  legacyInOperator :: bool

text \<open>\<^verbatim>\<open>xs.map(f)\<close> where \<open>f\<close> may throw: the first failure, in list order, wins.\<close>

fun mapE :: "('a \<Rightarrow> error + 'b) \<Rightarrow> 'a list \<Rightarrow> error + 'b list" where
  "mapE f [] = Inr []"
| "mapE f (x # xs) =
     (case f x of
        Inl e \<Rightarrow> Inl e
      | Inr y \<Rightarrow> (case mapE f xs of Inl e \<Rightarrow> Inl e | Inr ys \<Rightarrow> Inr (y # ys)))"

fun formatValue :: "jsvalue \<Rightarrow> error + string" where
  "formatValue (VStr s) = Inr (quoted (escapeQuotes s))"
| "formatValue (VDate d) = toISOString d"
| "formatValue (VNum n) = Inr n"
| "formatValue (VBool b) = Inr (showBool b)"
| "formatValue v = Inl (UnsupportedValueType (typeof v))"

fun formatInValue :: "jsvalue \<Rightarrow> error + string" where
  "formatInValue VNull = Inr ''null''"
| "formatInValue (VStr s) = Inr (if isGuid (VStr s) then s else quoted (escapeQuotes s))"
| "formatInValue (VDate d) = toISOString d"
| "formatInValue (VNum n) = Inr n"
| "formatInValue (VBool b) = Inr (showBool b)"
| "formatInValue v = Inl (UnsupportedInValueType (typeof v))"

definition getTransformedField :: "basicFilter \<Rightarrow> string" where
  "getTransformedField flt =
     (let transforms =
            (if ignoreCase flt then [''tolower''] else []) @
            (case transform flt of TList ts \<Rightarrow> map transformName ts | _ \<Rightarrow> [])
      in foldl (\<lambda>acc t. t @ ''('' @ acc @ '')'') (field flt) transforms)"

fun dateTransforms :: "transform \<Rightarrow> (int \<Rightarrow> int) option" where
  "dateTransforms Year = Some getUTCFullYear"
| "dateTransforms Month = Some (\<lambda>date. getUTCMonth date + 1)"
| "dateTransforms Day = Some getUTCDate"
| "dateTransforms Hour = Some getUTCHours"
| "dateTransforms Minute = Some getUTCMinutes"
| "dateTransforms Second = Some getUTCSeconds"
| "dateTransforms _ = None"

text \<open>
  The reduction starts from the time value of the date (\<open>None\<close> for \<^verbatim>\<open>NaN\<close>); every step
  reads its input as a time value again, and an accessor on \<^verbatim>\<open>new Date(NaN)\<close> is \<^verbatim>\<open>NaN\<close>.
\<close>

fun applyDateTransforms :: "int option \<Rightarrow> transform list \<Rightarrow> error + int option" where
  "applyDateTransforms acc [] = Inr acc"
| "applyDateTransforms acc (t # ts) =
     (case dateTransforms t of
        None \<Rightarrow> Inl (UnsupportedDateTransform (transformName t))
      | Some transformFn \<Rightarrow> applyDateTransforms (map_option transformFn acc) ts)"

fun resolveField :: "fieldArgument \<Rightarrow> error + string" where
  "resolveField (FieldName f) = Inr f"
| "resolveField (FieldReference r) = Inl UnsupportedFieldReference"

definition callText :: "string \<Rightarrow> string list \<Rightarrow> string" where
  "callText name args = name @ ''('' @ join '', '' args @ '')''"

fun processFunction :: "functionDefinition \<Rightarrow> string \<Rightarrow> error + string" where
  "processFunction (Concat vs) fld =
     (case mapE formatValue vs of
        Inl e \<Rightarrow> Inl e
      | Inr args \<Rightarrow> Inr (callText ''concat'' (fld # args)))"
| "processFunction (Contains v) fld =
     (case formatValue v of Inl e \<Rightarrow> Inl e | Inr a \<Rightarrow> Inr (callText ''contains'' [fld, a]))"
| "processFunction (Endswith v) fld =
     (case formatValue v of Inl e \<Rightarrow> Inl e | Inr a \<Rightarrow> Inr (callText ''endswith'' [fld, a]))"
| "processFunction (Indexof v) fld =
     (case formatValue v of Inl e \<Rightarrow> Inl e | Inr a \<Rightarrow> Inr (callText ''indexof'' [fld, a]))"
| "processFunction LengthOf fld = Inr (callText ''length'' [fld])"
| "processFunction (Startswith v) fld =
     (case formatValue v of Inl e \<Rightarrow> Inl e | Inr a \<Rightarrow> Inr (callText ''startswith'' [fld, a]))"
| "processFunction (Substring start len) fld =
     (case mapE formatValue (start # (case len of None \<Rightarrow> [] | Some l \<Rightarrow> [l])) of
        Inl e \<Rightarrow> Inl e
      | Inr args \<Rightarrow> Inr (''substring('' @ fld @ '', '' @ join '', '' args @ '')''))"
| "processFunction (Arithmetic opr operand) fld =
     (case operand of
        None \<Rightarrow> Inl MissingOperand
      | Some v \<Rightarrow>
          (case formatValue v of
             Inl e \<Rightarrow> Inl e
           | Inr a \<Rightarrow> Inr (fld @ '' '' @ arithmeticName opr @ '' '' @ a)))"
| "processFunction Now fld = Inr ''now()''"
| "processFunction (DateOf f) fld =
     (case resolveField f of Inl e \<Rightarrow> Inl e | Inr r \<Rightarrow> Inr (callText ''date'' [r]))"
| "processFunction (TimeOf f) fld =
     (case resolveField f of Inl e \<Rightarrow> Inl e | Inr r \<Rightarrow> Inr (callText ''time'' [r]))"
| "processFunction (OtherFunction t) fld =
     (if t = [] then Inl MissingFunctionType else Inl (UnsupportedFunctionType t))"

definition getPrefixedField :: "string \<Rightarrow> string option \<Rightarrow> string" where
  "getPrefixedField fieldStr prefix =
     (case prefix of
        None \<Rightarrow> fieldStr
      | Some p \<Rightarrow>
          if p = [] then fieldStr
          else if fieldStr = ''s'' then p
          else if fieldStr = p then fieldStr
          else if fieldStr \<noteq> [] then p @ ''/'' @ fieldStr
          else p)"

definition validateOperator :: "string \<Rightarrow> string \<Rightarrow> error + unit" where
  "validateOperator type opr =
     (case isValidOperator type opr of
        Inl e \<Rightarrow> Inl e
      | Inr ok \<Rightarrow> if ok then Inr () else Inl (InvalidOperator opr type))"

definition booleanPredicates :: "string list" where
  "booleanPredicates = [''contains'', ''startswith'', ''endswith'']"

definition comparisonText :: "string \<Rightarrow> string \<Rightarrow> string \<Rightarrow> string" where
  "comparisonText leftSide opr rightSide = leftSide @ '' '' @ opr @ '' '' @ rightSide"

text \<open>
  \<^verbatim>\<open>'function' in filter && filter.function ? processFunction(filter.function, f) : other\<close>
\<close>

definition functionOr :: "basicFilter \<Rightarrow> string \<Rightarrow> string \<Rightarrow> error + string" where
  "functionOr flt f other =
     (case func flt of Some fn \<Rightarrow> processFunction fn f | None \<Rightarrow> Inr other)"

definition fieldForFunction :: "basicFilter \<Rightarrow> string" where
  "fieldForFunction flt =
     (if ignoreCase flt then ''tolower('' @ field flt @ '')'' else field flt)"

fun lowercasedValue :: "functionDefinition \<Rightarrow> functionDefinition" where
  "lowercasedValue (Contains (VStr s)) = Contains (VStr (toLowerCase s))"
| "lowercasedValue (Startswith (VStr s)) = Startswith (VStr (toLowerCase s))"
| "lowercasedValue (Endswith (VStr s)) = Endswith (VStr (toLowerCase s))"
| "lowercasedValue fn = fn"

definition visitBasicFilter :: "basicFilter \<Rightarrow> error + string" where
  "visitBasicFilter flt =
     (case val flt of
        None \<Rightarrow> Inl MissingValue
      | Some VNull \<Rightarrow>
          (case functionOr flt (field flt) (getTransformedField flt) of
             Inl e \<Rightarrow> Inl e
           | Inr leftSide \<Rightarrow> Inr (comparisonText leftSide (operator flt) ''null''))
      | Some v \<Rightarrow>
          (let valueType = getValueType v in
           if valueType = ''unknown'' then Inl (UnsupportedValueType (typeof v))
           else
             (case validateOperator valueType (operator flt) of
                Inl e \<Rightarrow> Inl e
              | Inr u \<Rightarrow>
                  (let transformedField = getTransformedField flt in
                   case v of
                     VDate d \<Rightarrow>
                       (case transform flt of
                          TUndefined \<Rightarrow>
                            Inl (TypeError ''Cannot read properties of undefined (reading length)'')
                        | TList (t # ts) \<Rightarrow>
                            (case applyDateTransforms (timeValue d) (t # ts) of
                               Inl e \<Rightarrow> Inl e
                             | Inr transformedValue \<Rightarrow>
                                 Inr (comparisonText transformedField (operator flt)
                                        (accessorText transformedValue)))
                        | _ \<Rightarrow>
                            (case functionOr flt (field flt) transformedField of
                               Inl e \<Rightarrow> Inl e
                             | Inr leftSide \<Rightarrow>
                                 (case toISOString d of
                                    Inl e \<Rightarrow> Inl e
                                  | Inr isoDate \<Rightarrow>
                                      Inr (comparisonText leftSide (operator flt) isoDate))))
                   | VStr s \<Rightarrow>
                       (let transformedValue = (if ignoreCase flt then toLowerCase s else s);
                            escapedValue = escapeQuotes transformedValue;
                            value = (if removeQuotes flt then escapedValue
                                     else quoted escapedValue)
                        in case func flt of
                             Some fn \<Rightarrow>
                               if functionType fn \<in> set booleanPredicates
                               then processFunction fn (fieldForFunction flt)
                               else
                                 (case processFunction fn (fieldForFunction flt) of
                                    Inl e \<Rightarrow> Inl e
                                  | Inr leftSide \<Rightarrow>
                                      Inr (comparisonText leftSide (operator flt) value))
                           | None \<Rightarrow>
                               Inr (comparisonText transformedField (operator flt) value))
                   | VNum n \<Rightarrow>
                       (case functionOr flt (field flt) transformedField of
                          Inl e \<Rightarrow> Inl e
                        | Inr leftSide \<Rightarrow>
                            Inr (comparisonText leftSide (operator flt) n))
                   | VBool b \<Rightarrow>
                       (case func flt of
                          Some fn \<Rightarrow>
                            if functionType fn \<in> set booleanPredicates
                            then processFunction
                                   (if ignoreCase flt then lowercasedValue fn else fn)
                                   (fieldForFunction flt)
                            else Inr (comparisonText transformedField (operator flt)
                                        (showBool b))
                        | None \<Rightarrow>
                            Inr (comparisonText transformedField (operator flt) (showBool b)))
                   | _ \<Rightarrow> Inl (UnsupportedValueType (typeof v))))))"

definition visitInFilter :: "filterRenderContext \<Rightarrow> string \<Rightarrow> jsvalue list \<Rightarrow> error + string" where
  "visitInFilter context fld values =
     (case mapE formatInValue values of
        Inl e \<Rightarrow> Inl e
      | Inr formattedValues \<Rightarrow>
          if legacyInOperator context
          then Inr (''('' @ join '' or '' (map (\<lambda>v. fld @ '' eq '' @ v) formattedValues) @ '')'')
          else Inr (fld @ '' in ('' @ join '', '' formattedValues @ '')''))"

text \<open>
  \<^verbatim>\<open>`${filter.field} has ${filter.value}`\<close>.  The value of a has-filter is a string and is
  passed through as it is.  What the template yields for a \<^verbatim>\<open>Date\<close> depends on the local
  time zone, and for a value of unknown kind on that value; both are marked as such.
\<close>

fun templateText :: "jsvalue \<Rightarrow> error + string" where
  "templateText (VStr s) = Inr s"
| "templateText VNull = Inr ''null''"
| "templateText (VNum n) = Inr n"
| "templateText (VBool b) = Inr (showBool b)"
| "templateText v = Inl (HostDependent (typeof v))"

definition visitHasFilter :: "basicFilter \<Rightarrow> error + string" where
  "visitHasFilter flt =
     (case val flt of
        None \<Rightarrow> Inr (field flt @ '' has undefined'')
      | Some v \<Rightarrow>
          (case templateText v of
             Inl e \<Rightarrow> Inl e
           | Inr literal \<Rightarrow> Inr (field flt @ '' has '' @ literal)))"

text \<open>
  \<^verbatim>\<open>String.fromCharCode(parentPrefix.charCodeAt(0) + 1)\<close>.  A \<^typ>\<open>char\<close> has 8 bits where
  a code unit of JavaScript has 16: the successor wraps after 255 here, after 65535 there.
\<close>

definition nextCharCode :: "char \<Rightarrow> char" where
  "nextCharCode c = char_of (of_char c + (1 :: nat))"

definition currentParamOf :: "string option \<Rightarrow> string" where
  "currentParamOf parentPrefix =
     (case parentPrefix of
        Some (c # cs) \<Rightarrow> [nextCharCode c]
      | _ \<Rightarrow> ''s'')"

definition lambdaText :: "string \<Rightarrow> string \<Rightarrow> string \<Rightarrow> string \<Rightarrow> string" where
  "lambdaText fld lambdaOperator currentParam subQuery =
     fld @ ''/'' @ lambdaOperator @ ''('' @ currentParam @ '': '' @ subQuery @ '')''"

text \<open>The copy of the inner comparison that \<^verbatim>\<open>visitLambdaFilter\<close> renders.\<close>

definition prefixedExpression :: "basicFilter \<Rightarrow> string \<Rightarrow> basicFilter" where
  "prefixedExpression expression currentParam =
     expression
       \<lparr>field := getPrefixedField (field expression) (Some currentParam),
        transform := (case transform expression of TAbsent \<Rightarrow> TUndefined | t \<Rightarrow> t)\<rparr>"

function visitLambdaFilter ::
    "filterRenderContext \<Rightarrow> queryFilter \<Rightarrow> string option \<Rightarrow> error + string"
  and visitCombinedFilter ::
    "filterRenderContext \<Rightarrow> queryFilter \<Rightarrow> string option \<Rightarrow> error + string"
  and visitSubFilters ::
    "filterRenderContext \<Rightarrow> queryFilter list \<Rightarrow> string option \<Rightarrow> error + string list"
  and visitSubFilter ::
    "filterRenderContext \<Rightarrow> queryFilter \<Rightarrow> string option \<Rightarrow> error + string"
  and visitNegatedFilter :: "filterRenderContext \<Rightarrow> queryFilter \<Rightarrow> error + string"
where
  "visitLambdaFilter context flt parentPrefix =
     (case flt of
        Lambda fld lambdaOperator expression \<Rightarrow>
          if lambdaOperator = [] then Inl InvalidLambdaFilter
          else
            (let currentParam = currentParamOf parentPrefix;
                 fld' = getPrefixedField fld parentPrefix
             in case expression of
                  Combined l fs \<Rightarrow>
                    (case visitCombinedFilter context expression (Some currentParam) of
                       Inl e \<Rightarrow> Inl e
                     | Inr subQuery \<Rightarrow> Inr (lambdaText fld' lambdaOperator currentParam subQuery))
                | Lambda f' o' e' \<Rightarrow>
                    (case visitLambdaFilter context expression (Some currentParam) of
                       Inl e \<Rightarrow> Inl e
                     | Inr nestedQuery \<Rightarrow>
                         Inr (lambdaText fld' lambdaOperator currentParam nestedQuery))
                | Basic b \<Rightarrow>
                    if isBasicFilter expression
                    then
                      (case visitBasicFilter (prefixedExpression b currentParam) of
                         Inl e \<Rightarrow> Inl e
                       | Inr subQuery \<Rightarrow>
                           Inr (lambdaText fld' lambdaOperator currentParam subQuery))
                    else Inl InvalidLambdaExpression
                | _ \<Rightarrow> Inl InvalidLambdaExpression)
      | _ \<Rightarrow> Inl InvalidLambdaFilter)"
| "visitCombinedFilter context flt currentPrefix =
     (case flt of
        Combined l fs \<Rightarrow>
          (case visitSubFilters context fs currentPrefix of
             Inl e \<Rightarrow> Inl e
           | Inr queries \<Rightarrow>
               (let combinedQueries = join ('' '' @ logicName l @ '' '') queries
                in Inr (if includesSpace combinedQueries
                        then ''('' @ combinedQueries @ '')''
                        else combinedQueries)))
      | _ \<Rightarrow> Inl (TypeError ''Cannot read properties of undefined (reading map)''))"
| "visitSubFilters context [] currentPrefix = Inr []"
| "visitSubFilters context (subFilter # rest) currentPrefix =
     (case visitSubFilter context subFilter currentPrefix of
        Inl e \<Rightarrow> Inl e
      | Inr q \<Rightarrow>
          (case visitSubFilters context rest currentPrefix of
             Inl e \<Rightarrow> Inl e
           | Inr qs \<Rightarrow> Inr (q # qs)))"
| "visitSubFilter context subFilter currentPrefix =
     (case subFilter of
        Combined l fs \<Rightarrow> visitCombinedFilter context subFilter currentPrefix
      | Lambda f opr e \<Rightarrow> visitLambdaFilter context subFilter currentPrefix
      | In f vs \<Rightarrow> visitInFilter context (getPrefixedField f currentPrefix) vs
      | Negated f \<Rightarrow> visitNegatedFilter context subFilter
      | Basic b \<Rightarrow>
          if isHasFilter subFilter
          then visitHasFilter (b\<lparr>field := getPrefixedField (field b) currentPrefix\<rparr>)
          else if isBasicFilter subFilter
          then visitBasicFilter (b\<lparr>field := getPrefixedField (field b) currentPrefix\<rparr>)
          else Inl InvalidSubFilter)"
| "visitNegatedFilter context flt =
     (case flt of
        Negated innerFilter \<Rightarrow>
          (case (case innerFilter of
                   Combined l fs \<Rightarrow> visitCombinedFilter context innerFilter None
                 | Negated f \<Rightarrow> visitNegatedFilter context innerFilter
                 | In f vs \<Rightarrow> visitInFilter context f vs
                 | Lambda f opr e \<Rightarrow> visitLambdaFilter context innerFilter None
                 | Basic b \<Rightarrow>
                     if isHasFilter innerFilter then visitHasFilter b
                     else if isBasicFilter innerFilter then visitBasicFilter b
                     else Inl InvalidNegatedInner) of
             Inl e \<Rightarrow> Inl e
           | Inr innerQuery \<Rightarrow> Inr (''not ('' @ innerQuery @ '')''))
      | _ \<Rightarrow> Inl InvalidNegatedInner)"
  by pat_completeness auto
termination
  by (relation "measure (\<lambda>x. case x of
          Inl (Inl (c, f, p)) \<Rightarrow> 2 * size f
        | Inl (Inr (c, f, p)) \<Rightarrow> 2 * size f
        | Inr (Inl (c, fs, p)) \<Rightarrow> 2 * size_list size fs + 1
        | Inr (Inr (Inl (c, f, p))) \<Rightarrow> 2 * size f + 1
        | Inr (Inr (Inr (c, f))) \<Rightarrow> 2 * size f)") auto

declare visitLambdaFilter.simps [simp del]
declare visitCombinedFilter.simps [simp del]
declare visitSubFilter.simps [simp del]
declare visitNegatedFilter.simps [simp del]

subsection \<open>Rendering a list of top-level filters (filter-utils)\<close>

definition filterQueryPart :: "filterRenderContext \<Rightarrow> queryFilter \<Rightarrow> error + string" where
  "filterQueryPart context current =
     (if \<not> isCombinedFilter current \<and> \<not> isLambdaFilter current \<and> \<not> isBasicFilter current \<and>
         \<not> isInFilter current \<and> \<not> isNegatedFilter current \<and> \<not> isHasFilter current
      then Inl InvalidFilter
      else
        (case current of
           Combined l fs \<Rightarrow> visitCombinedFilter context current None
         | Lambda f opr e \<Rightarrow> visitLambdaFilter context current None
         | In f vs \<Rightarrow> visitInFilter context f vs
         | Negated f \<Rightarrow> visitNegatedFilter context current
         | Basic b \<Rightarrow> if isHasFilter current then visitHasFilter b else visitBasicFilter b))"

definition toFilterQuery :: "queryFilter list \<Rightarrow> filterRenderContext \<Rightarrow> error + string" where
  "toFilterQuery filters context =
     (if filters = [] then Inr []
      else
        (case mapE (filterQueryPart context) filters of
           Inl e \<Rightarrow> Inl e
         | Inr queryParts \<Rightarrow> Inr (''$filter='' @ join '' and '' queryParts)))"

section \<open>FilterBuilder (filter-builder)\<close>

record filterPart =
  logic_part :: "logic option"
  filter_part :: queryFilter

text \<open>
  What \<^verbatim>\<open>where\<close>, \<^verbatim>\<open>and\<close> and \<^verbatim>\<open>or\<close> accept: another builder (given by its parts), a
  predicate callback (given by what it returns when it is run on the field proxy: a filter
  expression or anything else), or a value that is neither.
\<close>

datatype predicateResult = Expression queryFilter | NotAnExpression

datatype filterInput =
    InputBuilder "filterPart list"
  | InputPredicate predicateResult
  | InputOther

text \<open>The loop of \<^verbatim>\<open>buildWithPrecedence\<close>, on \<open>orGroups\<close> and \<open>currentAndGroup\<close>.\<close>

fun groupParts ::
  "filterPart list \<Rightarrow> queryFilter list list \<Rightarrow> queryFilter list \<Rightarrow>
   queryFilter list list \<times> queryFilter list" where
  "groupParts [] orGroups currentAndGroup = (orGroups, currentAndGroup)"
| "groupParts (part # rest) orGroups currentAndGroup =
     (if logic_part part = Some Or
      then groupParts rest
             (if currentAndGroup \<noteq> [] then orGroups @ [currentAndGroup] else orGroups)
             [filter_part part]
      else groupParts rest orGroups (currentAndGroup @ [filter_part part]))"

definition combineAndGroup :: "queryFilter list \<Rightarrow> queryFilter list" where
  "combineAndGroup grp = (case grp of [first] \<Rightarrow> [first] | _ \<Rightarrow> [Combined And grp])"

definition buildWithPrecedence :: "filterPart list \<Rightarrow> queryFilter" where
  "buildWithPrecedence parts =
     (let (orGroups0, currentAndGroup) = groupParts parts [] [];
          orGroups = (if currentAndGroup \<noteq> [] then orGroups0 @ [currentAndGroup]
                      else orGroups0);
          combinedAndGroups = concat (map combineAndGroup orGroups)
      in case combinedAndGroups of
           [first] \<Rightarrow> first
         | _ \<Rightarrow> Combined Or combinedAndGroups)"

definition build :: "filterPart list \<Rightarrow> queryFilter option" where
  "build parts =
     (case parts of
        [] \<Rightarrow> None
      | [first] \<Rightarrow> Some (filter_part first)
      | _ \<Rightarrow> Some (buildWithPrecedence parts))"

definition isEmpty :: "filterPart list \<Rightarrow> bool" where
  "isEmpty parts = (parts = [])"

definition resolveInput :: "filterInput \<Rightarrow> error + queryFilter option" where
  "resolveInput input =
     (case input of
        InputBuilder parts \<Rightarrow> Inr (build parts)
      | InputOther \<Rightarrow> Inl InvalidInput
      | InputPredicate NotAnExpression \<Rightarrow> Inl InvalidPredicateReturn
      | InputPredicate (Expression f) \<Rightarrow> Inr (Some f))"

definition addPart ::
  "filterPart list \<Rightarrow> logic option \<Rightarrow> filterInput \<Rightarrow> error + filterPart list" where
  "addPart parts lg input =
     (case resolveInput input of
        Inl e \<Rightarrow> Inl e
      | Inr None \<Rightarrow> Inr parts
      | Inr (Some f) \<Rightarrow> Inr (parts @ [\<lparr>logic_part = lg, filter_part = f\<rparr>]))"

definition where_b :: "filterPart list \<Rightarrow> filterInput \<Rightarrow> error + filterPart list" where
  "where_b parts input = addPart parts None input"

definition and_b :: "filterPart list \<Rightarrow> filterInput \<Rightarrow> error + filterPart list" where
  "and_b parts input =
     (if parts = [] then Inl (EmptyBuilder ''and'') else addPart parts (Some And) input)"

definition or_b :: "filterPart list \<Rightarrow> filterInput \<Rightarrow> error + filterPart list" where
  "or_b parts input =
     (if parts = [] then Inl (EmptyBuilder ''or'') else addPart parts (Some Or) input)"

definition not_b :: "filterPart list \<Rightarrow> error + filterPart list" where
  "not_b parts =
     (if parts = [] then Inl (EmptyBuilder ''not'')
      else
        (case build parts of
           None \<Rightarrow> Inl EmptyNegation
         | Some currentFilter \<Rightarrow>
             Inr [\<lparr>logic_part = None, filter_part = Negated currentFilter\<rparr>]))"

definition group_b :: "filterPart list \<Rightarrow> filterPart list \<Rightarrow> error + filterPart list" where
  "group_b parts builder =
     (case build builder of
        None \<Rightarrow> Inl EmptyGroup
      | Some result \<Rightarrow> Inr [\<lparr>logic_part = None, filter_part = result\<rparr>])"


section \<open>Definitions that follow the wording of the specification\<close>

text \<open>
  The operator table as the specification lists it: string with eq, ne, contains, startswith,
  endswith, indexof, concat; number and Date with eq, ne, lt, le, gt, ge; boolean, Guid and
  null with eq, ne; nothing else.
\<close>

definition claimedOperatorTable :: "(string \<times> string list) list" where
  "claimedOperatorTable =
     [(''string'', [''eq'', ''ne'', ''contains'', ''startswith'', ''endswith'', ''indexof'',
                    ''concat'']),
      (''number'', [''eq'', ''ne'', ''lt'', ''le'', ''gt'', ''ge'']),
      (''Date'', [''eq'', ''ne'', ''lt'', ''le'', ''gt'', ''ge'']),
      (''boolean'', [''eq'', ''ne'']),
      (''Guid'', [''eq'', ''ne'']),
      (''null'', [''eq'', ''ne''])]"

definition claimedValid :: "string \<Rightarrow> string \<Rightarrow> bool" where
  "claimedValid kind opr =
     (case map_of claimedOperatorTable kind of Some ops \<Rightarrow> opr \<in> set ops | None \<Rightarrow> False)"

text \<open>
  The number of \<^verbatim>\<open>''\<close> pairs of a string, read from the left; \<open>None\<close> when an
  apostrophe has no partner.
\<close>

fun quotePairs :: "string \<Rightarrow> nat option" where
  "quotePairs [] = Some 0"
| "quotePairs [c] = (if c = CHR 0x27 then None else Some 0)"
| "quotePairs (c # d # cs) =
     (if c = CHR 0x27
      then (if d = CHR 0x27 then map_option Suc (quotePairs cs) else None)
      else quotePairs (d # cs))"

text \<open>
  Escaping as the specification words it: every apostrophe is written twice.
\<close>

definition doubleQuotes :: "string \<Rightarrow> string" where
  "doubleQuotes s = concat (map (\<lambda>c. if c = CHR 0x27 then [CHR 0x27, CHR 0x27] else [c]) s)"

text \<open>
  The literal of a string value in a comparison: the value, case-folded when the case-fold flag
  is set, escaped, and wrapped in single quotes unless quote removal is set.
\<close>

definition escapedValue :: "basicFilter \<Rightarrow> string \<Rightarrow> string" where
  "escapedValue b s = doubleQuotes (if ignoreCase b then toLowerCase s else s)"

definition stringLiteral :: "basicFilter \<Rightarrow> string \<Rightarrow> string" where
  "stringLiteral b s =
     (if removeQuotes b then escapedValue b s
      else [CHR 0x27] @ escapedValue b s @ [CHR 0x27])"

text \<open>
  The transformed field: \<^verbatim>\<open>tolower\<close> around the field when the case-fold flag is set, then
  every transform of the chain around that, the last transform outermost.
\<close>

definition transformCall :: "string \<Rightarrow> string \<Rightarrow> string" where
  "transformCall name inner = name @ ''('' @ inner @ '')''"

definition claimedTransformedField :: "basicFilter \<Rightarrow> string" where
  "claimedTransformedField b =
     foldr transformCall
       (rev (case transform b of TList ts \<Rightarrow> map transformName ts | _ \<Rightarrow> []))
       (if ignoreCase b then transformCall ''tolower'' (field b) else field b)"

text \<open>
  The canonical GUID pattern: 36 characters, hyphens at the positions 8, 13, 18 and 23,
  hexadecimal digits of either case in the blocks of 8, 4, 4, 4 and 12 between them.
\<close>

definition claimedHex :: "char \<Rightarrow> bool" where
  "claimedHex c = (c \<in> set ''0123456789'' \<or> c \<in> set ''abcdef'' \<or> c \<in> set ''ABCDEF'')"

definition hexBlock :: "nat \<Rightarrow> nat \<Rightarrow> string \<Rightarrow> bool" where
  "hexBlock start len s = list_all claimedHex (take len (drop start s))"

definition claimedGuid :: "string \<Rightarrow> bool" where
  "claimedGuid s =
     (length s = 36 \<and> s ! 8 = CHR ''-'' \<and> s ! 13 = CHR ''-'' \<and> s ! 18 = CHR ''-'' \<and>
      s ! 23 = CHR ''-'' \<and> hexBlock 0 8 s \<and> hexBlock 9 4 s \<and> hexBlock 14 4 s \<and>
      hexBlock 19 4 s \<and> hexBlock 24 12 s)"

text \<open>
  The literal of a membership list by kind, as the specification words it: a string of the
  GUID pattern bare, any other string in single quotes with every inner apostrophe doubled, a
  number or boolean raw, a date as its ISO timestamp, \<^verbatim>\<open>null\<close> as \<^verbatim>\<open>null\<close>.  An invalid
  date has no timestamp and a value of unknown kind no literal (\<open>None\<close>).
\<close>

definition literalByKind :: "jsvalue \<Rightarrow> string option" where
  "literalByKind v =
     (case v of
        VNull \<Rightarrow> Some ''null''
      | VStr s \<Rightarrow> Some (if claimedGuid s then s else [CHR 0x27] @ doubleQuotes s @ [CHR 0x27])
      | VNum n \<Rightarrow> Some n
      | VBool b \<Rightarrow> Some (if b then ''true'' else ''false'')
      | VDate InvalidDate \<Rightarrow> None
      | VDate (ValidDate t stamp) \<Rightarrow> Some stamp
      | VUnknown t \<Rightarrow> None)"

text \<open>The grammar \<^verbatim>\<open>item {sep item}\<close> of the lists on the wire.\<close>

fun repeated :: "string \<Rightarrow> string list \<Rightarrow> string" where
  "repeated sep [] = []"
| "repeated sep (x # xs) = x @ concat (map (\<lambda>y. sep @ y) xs)"

text \<open>The separator of a Combined node, and a string wrapped in parentheses.\<close>

definition logicSeparator :: "logic \<Rightarrow> string" where
  "logicSeparator l = '' '' @ logicName l @ '' ''"

definition parenthesized :: "string \<Rightarrow> string" where
  "parenthesized s = ''('' @ s @ '')''"

section \<open>Verified properties\<close>

subsection \<open>The operator table\<close>

lemma isValidOperator_known:
  "(kind, ops) \<in> set operatorTypeMap \<Longrightarrow> isValidOperator kind opr = Inr (opr \<in> set ops)"
proof -
  assume a: "(kind, ops) \<in> set operatorTypeMap"
  have "distinct (map fst operatorTypeMap)" by (simp add: operatorTypeMap_def)
  with a have "map_of operatorTypeMap kind = Some ops" by simp
  then show ?thesis by (simp add: isValidOperator_def)
qed

lemma isValidOperator_other:
  "kind \<notin> fst ` set operatorTypeMap \<Longrightarrow> kind \<notin> set objectPrototypeKeys \<Longrightarrow>
   isValidOperator kind opr = Inr False"
  by (simp add: isValidOperator_def map_of_eq_None_iff [THEN iffD2])

lemma claimedValid_known:
  "(kind, ops) \<in> set claimedOperatorTable \<Longrightarrow> claimedValid kind opr = (opr \<in> set ops)"
proof -
  assume a: "(kind, ops) \<in> set claimedOperatorTable"
  have "distinct (map fst claimedOperatorTable)" by (simp add: claimedOperatorTable_def)
  with a have "map_of claimedOperatorTable kind = Some ops" by simp
  then show ?thesis by (simp add: claimedValid_def)
qed

lemma claimedValid_other:
  "kind \<notin> fst ` set claimedOperatorTable \<Longrightarrow> claimedValid kind opr = False"
  by (simp add: claimedValid_def map_of_eq_None_iff [THEN iffD2])

lemma keys_same: "fst ` set claimedOperatorTable = fst ` set operatorTypeMap"
  by (simp add: claimedOperatorTable_def operatorTypeMap_def insert_commute)


text \<open>
  C3 (counterexample).  The table of the code also lists \<^verbatim>\<open>substringof\<close> for strings,
  which the claimed table does not: the function answers true on a pair outside the claimed table.
\<close>

theorem isValidOperator_substringof_counterexample:
  "isValidOperator ''string'' ''substringof'' = Inr True \<and>
   \<not> claimedValid ''string'' ''substringof''"
  by (simp add: isValidOperator_def operatorTypeMap_def claimedValid_def claimedOperatorTable_def)

lemma member_with_extra:
  "(x \<in> set [a, b, c, d, e, extra, f, g]) = (x \<in> set [a, b, c, d, e, f, g] \<or> x = extra)"
  by auto

lemma operatorTypeMap_keys:
  "kind \<in> fst ` set operatorTypeMap \<Longrightarrow>
   kind = ''string'' \<or> kind = ''number'' \<or> kind = ''boolean'' \<or> kind = ''Date'' \<or>
   kind = ''Guid'' \<or> kind = ''null''"
  by (simp add: operatorTypeMap_def)

lemma string_is_key: "''string'' \<in> fst ` set operatorTypeMap"
  by (simp add: operatorTypeMap_def)

text \<open>
  C3 (as amended).  For every kind that is not the name of a property inherited from
  \<^verbatim>\<open>Object.prototype\<close>, \<^verbatim>\<open>isValidOperator\<close> returns a boolean, and it is true exactly
  for the pairs of the claimed table and for the pair string/substringof; every other pair,
  unknown kinds included, yields false.
\<close>

theorem isValidOperator_table:
  assumes "kind \<notin> set objectPrototypeKeys"
  shows "isValidOperator kind opr =
           Inr (claimedValid kind opr \<or> (kind = ''string'' \<and> opr = ''substringof''))"
proof (cases "kind \<in> fst ` set operatorTypeMap")
  case False
  then have "kind \<noteq> ''string''" using string_is_key by metis
  with False assms show ?thesis
    by (simp add: isValidOperator_other claimedValid_other keys_same)
next
  case True
  from operatorTypeMap_keys [OF True] show ?thesis
  proof (elim disjE)
    assume k: "kind = ''string''"
    have "isValidOperator ''string'' opr =
            Inr (opr \<in> set [''eq'', ''ne'', ''contains'', ''startswith'', ''endswith'',
                              ''substringof'', ''indexof'', ''concat''])"
      by (rule isValidOperator_known) (simp add: operatorTypeMap_def)
    moreover have "claimedValid ''string'' opr =
            (opr \<in> set [''eq'', ''ne'', ''contains'', ''startswith'', ''endswith'',
                          ''indexof'', ''concat''])"
      by (rule claimedValid_known) (simp add: claimedOperatorTable_def)
    ultimately show ?thesis unfolding k member_with_extra by simp
  next
    assume k: "kind = ''number''"
    have "isValidOperator ''number'' opr = Inr (opr \<in> set [''eq'', ''ne'', ''lt'', ''le'', ''gt'', ''ge''])"
      by (rule isValidOperator_known) (simp add: operatorTypeMap_def)
    moreover have "claimedValid ''number'' opr = (opr \<in> set [''eq'', ''ne'', ''lt'', ''le'', ''gt'', ''ge''])"
      by (rule claimedValid_known) (simp add: claimedOperatorTable_def)
    ultimately show ?thesis unfolding k by simp
  next
    assume k: "kind = ''boolean''"
    have "isValidOperator ''boolean'' opr = Inr (opr \<in> set [''eq'', ''ne''])"
      by (rule isValidOperator_known) (simp add: operatorTypeMap_def)
    moreover have "claimedValid ''boolean'' opr = (opr \<in> set [''eq'', ''ne''])"
      by (rule claimedValid_known) (simp add: claimedOperatorTable_def)
    ultimately show ?thesis unfolding k by simp
  next
    assume k: "kind = ''Date''"
    have "isValidOperator ''Date'' opr = Inr (opr \<in> set [''eq'', ''ne'', ''lt'', ''le'', ''gt'', ''ge''])"
      by (rule isValidOperator_known) (simp add: operatorTypeMap_def)
    moreover have "claimedValid ''Date'' opr = (opr \<in> set [''eq'', ''ne'', ''lt'', ''le'', ''gt'', ''ge''])"
      by (rule claimedValid_known) (simp add: claimedOperatorTable_def)
    ultimately show ?thesis unfolding k by simp
  next
    assume k: "kind = ''Guid''"
    have "isValidOperator ''Guid'' opr = Inr (opr \<in> set [''eq'', ''ne''])"
      by (rule isValidOperator_known) (simp add: operatorTypeMap_def)
    moreover have "claimedValid ''Guid'' opr = (opr \<in> set [''eq'', ''ne''])"
      by (rule claimedValid_known) (simp add: claimedOperatorTable_def)
    ultimately show ?thesis unfolding k by simp
  next
    assume k: "kind = ''null''"
    have "isValidOperator ''null'' opr = Inr (opr \<in> set [''eq'', ''ne''])"
      by (rule isValidOperator_known) (simp add: operatorTypeMap_def)
    moreover have "claimedValid ''null'' opr = (opr \<in> set [''eq'', ''ne''])"
      by (rule claimedValid_known) (simp add: claimedOperatorTable_def)
    ultimately show ?thesis unfolding k by simp
  qed
qed

theorem isValidOperator_table_witness:
  "''Date'' \<notin> set objectPrototypeKeys \<and> isValidOperator ''Date'' ''ge'' = Inr True \<and>
   ''widget'' \<notin> set objectPrototypeKeys \<and> isValidOperator ''widget'' ''eq'' = Inr False"
proof -
  have a: "''Date'' \<notin> set objectPrototypeKeys" by (simp add: objectPrototypeKeys_def)
  have b: "''widget'' \<notin> set objectPrototypeKeys" by (simp add: objectPrototypeKeys_def)
  have c: "claimedValid ''Date'' ''ge''" by (simp add: claimedValid_def claimedOperatorTable_def)
  have d: "\<not> claimedValid ''widget'' ''eq''" by (simp add: claimedValid_def claimedOperatorTable_def)
  from isValidOperator_table [OF a, of "''ge''"] isValidOperator_table [OF b, of "''eq''"] a b c d
  show ?thesis by simp
qed

text \<open>A kind that names an inherited property makes the call throw.\<close>

lemma isValidOperator_constructor_throws:
  "isValidOperator ''constructor'' ''eq'' = Inl (TypeError ''validOperators.includes is not a function'')"
  by (simp add: isValidOperator_def operatorTypeMap_def objectPrototypeKeys_def)

subsection \<open>FilterBuilder: inputs, grouping\<close>

lemma build_empty_iff: "build parts = None \<longleftrightarrow> parts = []"
  by (simp add: build_def split: list.splits)

lemma build_nonempty: "parts \<noteq> [] \<Longrightarrow> \<exists>t. build parts = Some t"
  using build_empty_iff by (cases "build parts") auto

text \<open>
  C9.  With another builder as input, \<^verbatim>\<open>where\<close>, \<^verbatim>\<open>and\<close> and \<^verbatim>\<open>or\<close> append the inner
  builder's built tree as one part, and return the outer parts unchanged when the inner builder
  is empty (it builds to nothing exactly when it has no part); \<^verbatim>\<open>where\<close> never fails on a
  builder input; \<^verbatim>\<open>and\<close> and \<^verbatim>\<open>or\<close> on an empty outer builder fail with the empty-builder
  error whatever the input is.
\<close>

theorem builder_input:
  "(where_b outer (InputBuilder inner) =
      Inr (case build inner of None \<Rightarrow> outer
           | Some t \<Rightarrow> outer @ [\<lparr>logic_part = None, filter_part = t\<rparr>])) \<and>
   (outer \<noteq> [] \<longrightarrow>
      and_b outer (InputBuilder inner) =
        Inr (case build inner of None \<Rightarrow> outer
             | Some t \<Rightarrow> outer @ [\<lparr>logic_part = Some And, filter_part = t\<rparr>]) \<and>
      or_b outer (InputBuilder inner) =
        Inr (case build inner of None \<Rightarrow> outer
             | Some t \<Rightarrow> outer @ [\<lparr>logic_part = Some Or, filter_part = t\<rparr>])) \<and>
   (build inner = None \<longleftrightarrow> inner = []) \<and>
   and_b [] input = Inl (EmptyBuilder ''and'') \<and>
   or_b [] input = Inl (EmptyBuilder ''or'')"
proof -
  have w: "where_b outer (InputBuilder inner) =
      Inr (case build inner of None \<Rightarrow> outer
           | Some t \<Rightarrow> outer @ [\<lparr>logic_part = None, filter_part = t\<rparr>])"
    by (simp add: where_b_def addPart_def resolveInput_def split: option.splits)
  have a: "outer \<noteq> [] \<longrightarrow> and_b outer (InputBuilder inner) =
        Inr (case build inner of None \<Rightarrow> outer
             | Some t \<Rightarrow> outer @ [\<lparr>logic_part = Some And, filter_part = t\<rparr>])"
    by (simp add: and_b_def addPart_def resolveInput_def split: option.splits)
  have b: "outer \<noteq> [] \<longrightarrow> or_b outer (InputBuilder inner) =
        Inr (case build inner of None \<Rightarrow> outer
             | Some t \<Rightarrow> outer @ [\<lparr>logic_part = Some Or, filter_part = t\<rparr>])"
    by (simp add: or_b_def addPart_def resolveInput_def split: option.splits)
  have c: "and_b [] input = Inl (EmptyBuilder ''and'')" by (simp add: and_b_def)
  have d: "or_b [] input = Inl (EmptyBuilder ''or'')" by (simp add: or_b_def)
  from w a b c d build_empty_iff [of inner] show ?thesis by blast
qed

theorem builder_input_witness:
  "and_b [\<lparr>logic_part = None, filter_part = In ''a'' [VNum ''1'']\<rparr>] (InputBuilder []) =
     Inr [\<lparr>logic_part = None, filter_part = In ''a'' [VNum ''1'']\<rparr>] \<and>
   or_b [\<lparr>logic_part = None, filter_part = In ''a'' [VNum ''1'']\<rparr>]
        (InputBuilder [\<lparr>logic_part = None, filter_part = In ''b'' [VNull]\<rparr>]) =
     Inr [\<lparr>logic_part = None, filter_part = In ''a'' [VNum ''1'']\<rparr>,
          \<lparr>logic_part = Some Or, filter_part = In ''b'' [VNull]\<rparr>] \<and>
   where_b [] (InputBuilder []) = Inr [] \<and>
   and_b [] InputOther = Inl (EmptyBuilder ''and'')"
proof -
  have n: "[\<lparr>logic_part = None, filter_part = In ''a'' [VNum ''1'']\<rparr>] \<noteq> []" by simp
  have b0: "build [] = None" by (simp add: build_def)
  have b1: "build [\<lparr>logic_part = None, filter_part = In ''b'' [VNull]\<rparr>] = Some (In ''b'' [VNull])"
    by (simp add: build_def)
  from builder_input [of "[\<lparr>logic_part = None, filter_part = In ''a'' [VNum ''1'']\<rparr>]" "[]" InputOther]
       builder_input [of "[\<lparr>logic_part = None, filter_part = In ''a'' [VNum ''1'']\<rparr>]"
         "[\<lparr>logic_part = None, filter_part = In ''b'' [VNull]\<rparr>]" InputOther]
       builder_input [of "[]" "[]" InputOther] n b0 b1
  show ?thesis by simp
qed

text \<open>
  C10.  \<^verbatim>\<open>group(inner)\<close> fails when the inner builder builds to nothing; otherwise the
  builder it returns has exactly one part, the inner builder's built tree, whatever parts the
  receiving builder held.
\<close>

theorem group_single_part:
  "(build inner = None \<longrightarrow> group_b receiver inner = Inl EmptyGroup) \<and>
   (\<forall>t. build inner = Some t \<longrightarrow>
      group_b receiver inner = Inr [\<lparr>logic_part = None, filter_part = t\<rparr>])"
  by (simp add: group_b_def)

theorem group_single_part_witness:
  "build [\<lparr>logic_part = None, filter_part = In ''a'' [VNum ''1'']\<rparr>] = Some (In ''a'' [VNum ''1'']) \<and>
   group_b [\<lparr>logic_part = None, filter_part = In ''z'' [VNull]\<rparr>]
           [\<lparr>logic_part = None, filter_part = In ''a'' [VNum ''1'']\<rparr>]
     = Inr [\<lparr>logic_part = None, filter_part = In ''a'' [VNum ''1'']\<rparr>] \<and>
   build [] = None \<and>
   group_b [\<lparr>logic_part = None, filter_part = In ''z'' [VNull]\<rparr>] [] = Inl EmptyGroup"
proof -
  have b: "build [\<lparr>logic_part = None, filter_part = In ''a'' [VNum ''1'']\<rparr>] = Some (In ''a'' [VNum ''1''])"
    by (simp add: build_def)
  have e: "build [] = None" by (simp add: build_def)
  from group_single_part [of "[\<lparr>logic_part = None, filter_part = In ''a'' [VNum ''1'']\<rparr>]"
        "[\<lparr>logic_part = None, filter_part = In ''z'' [VNull]\<rparr>]"]
       group_single_part [of "[]" "[\<lparr>logic_part = None, filter_part = In ''z'' [VNull]\<rparr>]"] b e
  show ?thesis by blast
qed

subsection \<open>Combined nodes\<close>

lemma visitSubFilters_mapE:
  "visitSubFilters c fs p = mapE (\<lambda>f. visitSubFilter c f p) fs"
  by (induction fs) (simp_all split: sum.splits)

lemma mapE_length: "mapE f xs = Inr ys \<Longrightarrow> length ys = length xs"
  by (induction xs arbitrary: ys) (auto split: sum.splits)

lemma mapE_all2: "mapE f xs = Inr ys \<Longrightarrow> list_all2 (\<lambda>x y. f x = Inr y) xs ys"
  by (induction xs arbitrary: ys) (auto split: sum.splits)

lemma includesSpace_append: "includesSpace (xs @ ys) = (includesSpace xs \<or> includesSpace ys)"
  by (auto simp: includesSpace_def)

lemma includesSpace_separator: "includesSpace (logicSeparator l)"
  by (simp add: includesSpace_def logicSeparator_def)

lemma includesSpace_join:
  "2 \<le> length qs \<Longrightarrow> includesSpace sep \<Longrightarrow> includesSpace (join sep qs)"
proof (cases qs)
  case Nil
  assume "2 \<le> length qs" with Nil show ?thesis by simp
next
  case (Cons q rest)
  assume a: "2 \<le> length qs" and s: "includesSpace sep"
  from a Cons obtain r rest' where "rest = r # rest'" by (cases rest) auto
  with Cons s show ?thesis by (simp add: includesSpace_append)
qed

lemma visitCombinedFilter_Combined:
  "visitCombinedFilter c (Combined l fs) p =
     (case visitSubFilters c fs p of
        Inl e \<Rightarrow> Inl e
      | Inr queries \<Rightarrow>
          Inr (if includesSpace (join (logicSeparator l) queries)
               then parenthesized (join (logicSeparator l) queries)
               else join (logicSeparator l) queries))"
  by (simp add: visitCombinedFilter.simps [of c "Combined l fs" p] logicSeparator_def
        parenthesized_def Let_def split: sum.splits)

text \<open>
  C2 (as amended).  When the children of a Combined node render, to \<open>queries\<close> in order,
  the node renders as their join with \<^verbatim>\<open> and \<close> or \<^verbatim>\<open> or \<close>, wrapped in parentheses
  exactly when the joined string contains a space; that is the case whenever two or more
  children were joined.
\<close>

theorem combined_rendering:
  assumes "visitSubFilters c fs p = Inr queries"
  shows "list_all2 (\<lambda>f q. visitSubFilter c f p = Inr q) fs queries \<and>
         visitCombinedFilter c (Combined l fs) p =
           Inr (if includesSpace (join (logicSeparator l) queries)
                then parenthesized (join (logicSeparator l) queries)
                else join (logicSeparator l) queries) \<and>
         (2 \<le> length fs \<longrightarrow>
            visitCombinedFilter c (Combined l fs) p =
              Inr (parenthesized (join (logicSeparator l) queries)))"
proof -
  from assms have m: "mapE (\<lambda>f. visitSubFilter c f p) fs = Inr queries"
    by (simp add: visitSubFilters_mapE)
  have a: "list_all2 (\<lambda>f q. visitSubFilter c f p = Inr q) fs queries"
    using mapE_all2 [OF m] .
  have b: "visitCombinedFilter c (Combined l fs) p =
           Inr (if includesSpace (join (logicSeparator l) queries)
                then parenthesized (join (logicSeparator l) queries)
                else join (logicSeparator l) queries)"
    using assms by (simp add: visitCombinedFilter_Combined)
  have "2 \<le> length fs \<Longrightarrow> includesSpace (join (logicSeparator l) queries)"
    using mapE_length [OF m] includesSpace_join includesSpace_separator by simp
  with a b show ?thesis by simp
qed

lemma john_basic:
  "visitBasicFilter (comparison ''name'' ''eq'' (VStr ''John'')) =
     Inr (''name eq '' @ [CHR 0x27] @ ''John'' @ [CHR 0x27])"
  by code_simp

lemma john_sub:
  "visitSubFilter c (Basic (comparison ''name'' ''eq'' (VStr ''John''))) None =
     Inr (''name eq '' @ [CHR 0x27] @ ''John'' @ [CHR 0x27])"
proof -
  have "(comparison ''name'' ''eq'' (VStr ''John''))
          \<lparr>field := getPrefixedField (field (comparison ''name'' ''eq'' (VStr ''John''))) None\<rparr>
        = comparison ''name'' ''eq'' (VStr ''John'')"
    by (simp add: getPrefixedField_def)
  then show ?thesis using john_basic
    by (simp add: visitSubFilter.simps [of c "Basic b" for b] comparison_def)
qed

text \<open>
  C2 (counterexample).  A Combined node with the single child \<^verbatim>\<open>name eq 'John'\<close>: one
  child is joined, and the result is parenthesized all the same.
\<close>

theorem single_child_parenthesized_counterexample:
  "visitSubFilters \<lparr>legacyInOperator = False\<rparr>
     [Basic (comparison ''name'' ''eq'' (VStr ''John''))] None =
     Inr [''name eq '' @ [CHR 0x27] @ ''John'' @ [CHR 0x27]] \<and>
   visitCombinedFilter \<lparr>legacyInOperator = False\<rparr>
     (Combined And [Basic (comparison ''name'' ''eq'' (VStr ''John''))]) None =
     Inr (''(name eq '' @ [CHR 0x27] @ ''John'' @ [CHR 0x27] @ '')'')"
  using john_sub [of "\<lparr>legacyInOperator = False\<rparr>"]
  by (simp add: visitCombinedFilter_Combined logicSeparator_def parenthesized_def includesSpace_def)

theorem combined_rendering_witness:
  "visitCombinedFilter \<lparr>legacyInOperator = False\<rparr>
     (Combined Or [In ''a'' [VNull], In ''b'' [VNull]]) None =
     Inr ''(a in (null) or b in (null))'' \<and>
   visitCombinedFilter \<lparr>legacyInOperator = False\<rparr> (Combined Or [Combined And []]) None = Inr []"
proof -
  let ?c = "\<lparr>legacyInOperator = False\<rparr>"
  have s1: "visitSubFilters ?c [In ''a'' [VNull], In ''b'' [VNull]] None =
              Inr [''a in (null)'', ''b in (null)'']"
    by (simp add: visitSubFilter.simps [of ?c "In f vs" for f vs] visitInFilter_def
          getPrefixedField_def)
  have s2: "visitSubFilters ?c [Combined And []] None = Inr [[]]"
    by (simp add: visitSubFilter.simps [of ?c "Combined l fs" for l fs]
          visitCombinedFilter_Combined includesSpace_def)
  from combined_rendering [OF s1, of Or] combined_rendering [OF s2, of Or]
  show ?thesis by (simp add: logicSeparator_def parenthesized_def includesSpace_def)
qed

subsection \<open>Negation\<close>

lemma visitNegatedFilter_Negated:
  "visitNegatedFilter c (Negated t) =
     (case (case t of
              Combined l fs \<Rightarrow> visitCombinedFilter c t None
            | Negated f \<Rightarrow> visitNegatedFilter c t
            | In f vs \<Rightarrow> visitInFilter c f vs
            | Lambda f opr e \<Rightarrow> visitLambdaFilter c t None
            | Basic b \<Rightarrow>
                if isHasFilter t then visitHasFilter b
                else if isBasicFilter t then visitBasicFilter b
                else Inl InvalidNegatedInner) of
        Inl e \<Rightarrow> Inl e
      | Inr innerQuery \<Rightarrow> Inr (''not ('' @ innerQuery @ '')''))"
  by (simp add: visitNegatedFilter.simps [of c "Negated t"])

lemma lambda_unguarded_fails:
  "\<not> isLambdaFilter (Lambda f opr e) \<Longrightarrow> \<exists>err. visitLambdaFilter c (Lambda f opr e) p = Inl err"
proof (induction e arbitrary: f opr p)
  case (Basic b)
  then show ?case by (simp add: visitLambdaFilter.simps [of c "Lambda f opr (Basic b)" p] Let_def)
next
  case (Lambda f' opr' e')
  then have "\<not> isLambdaFilter (Lambda f' opr' e')" by simp
  from Lambda.IH [OF this] obtain err where
    "visitLambdaFilter c (Lambda f' opr' e') (Some (currentParamOf p)) = Inl err" by blast
  then show ?case
    by (simp add: visitLambdaFilter.simps [of c "Lambda f opr (Lambda f' opr' e')" p] Let_def)
next
  case (In f' vs)
  then show ?case by (simp add: visitLambdaFilter.simps [of c "Lambda f opr (In f' vs)" p] Let_def)
next
  case (Negated e')
  then show ?case by (simp add: visitLambdaFilter.simps [of c "Lambda f opr (Negated e')" p] Let_def)
next
  case (Combined l fs)
  then show ?case by simp
qed

lemma negated_of_rendered:
  "filterQueryPart c t = Inr s \<Longrightarrow> visitNegatedFilter c (Negated t) = Inr (''not ('' @ s @ '')'')"
  by (cases t) (auto simp: filterQueryPart_def visitNegatedFilter_Negated split: if_splits)

lemma negated_of_failed:
  "filterQueryPart c t = Inl e \<Longrightarrow> \<exists>e'. visitNegatedFilter c (Negated t) = Inl e'"
proof (cases t)
  case (Lambda f opr ex)
  assume a: "filterQueryPart c t = Inl e"
  show ?thesis
  proof (cases "isLambdaFilter t")
    case True
    with a Lambda show ?thesis
      by (auto simp: filterQueryPart_def visitNegatedFilter_Negated split: if_splits)
  next
    case False
    with Lambda lambda_unguarded_fails obtain err where
      "visitLambdaFilter c t None = Inl err" by blast
    with Lambda show ?thesis by (simp add: visitNegatedFilter_Negated)
  qed
qed (auto simp: filterQueryPart_def visitNegatedFilter_Negated split: if_splits)

lemma filterQueryPart_Negated:
  "filterQueryPart c (Negated t) = visitNegatedFilter c (Negated t)"
  by (simp add: filterQueryPart_def)

text \<open>
  C5.  On a non-empty builder \<^verbatim>\<open>not()\<close> returns the builder whose single part is the
  Negation of the tree the builder builds, the whole expression so far.  Whenever that tree
  renders, to \<open>s\<close>, the Negation renders as \<^verbatim>\<open>not (\<close>, \<open>s\<close>, \<^verbatim>\<open>)\<close>, whatever the
  variant of the tree (an already negated one included), and when the tree fails to render
  so does the Negation.  On the empty builder \<^verbatim>\<open>not()\<close> fails.
\<close>

theorem not_wraps_whole_expression:
  "(b \<noteq> [] \<longrightarrow>
      (\<exists>t. build b = Some t \<and>
           not_b b = Inr [\<lparr>logic_part = None, filter_part = Negated t\<rparr>] \<and>
           (\<forall>s. filterQueryPart c t = Inr s \<longrightarrow>
                filterQueryPart c (Negated t) = Inr (''not ('' @ s @ '')'')) \<and>
           (\<forall>e. filterQueryPart c t = Inl e \<longrightarrow>
                (\<exists>e'. filterQueryPart c (Negated t) = Inl e')))) \<and>
   not_b [] = Inl (EmptyBuilder ''not'')"
proof (intro conjI impI)
  assume n: "b \<noteq> []"
  from build_nonempty [OF n] obtain t where t: "build b = Some t" by blast
  with n have "not_b b = Inr [\<lparr>logic_part = None, filter_part = Negated t\<rparr>]"
    by (simp add: not_b_def)
  with t show "\<exists>t. build b = Some t \<and>
           not_b b = Inr [\<lparr>logic_part = None, filter_part = Negated t\<rparr>] \<and>
           (\<forall>s. filterQueryPart c t = Inr s \<longrightarrow>
                filterQueryPart c (Negated t) = Inr (''not ('' @ s @ '')'')) \<and>
           (\<forall>e. filterQueryPart c t = Inl e \<longrightarrow>
                (\<exists>e'. filterQueryPart c (Negated t) = Inl e'))"
    using negated_of_rendered negated_of_failed by (auto simp: filterQueryPart_Negated)
next
  show "not_b [] = Inl (EmptyBuilder ''not'')" by (simp add: not_b_def)
qed


theorem not_wraps_whole_expression_witness:
  "not_b [\<lparr>logic_part = None,
           filter_part = Negated (Basic (comparison ''isActive'' ''eq'' (VBool True)))\<rparr>] =
     Inr [\<lparr>logic_part = None,
           filter_part = Negated (Negated (Basic (comparison ''isActive'' ''eq'' (VBool True))))\<rparr>] \<and>
   filterQueryPart \<lparr>legacyInOperator = False\<rparr>
     (Negated (Negated (Basic (comparison ''isActive'' ''eq'' (VBool True))))) =
     Inr ''not (not (isActive eq true))''"
proof -
  let ?x = "Negated (Basic (comparison ''isActive'' ''eq'' (VBool True)))"
  let ?b = "[\<lparr>logic_part = None, filter_part = ?x\<rparr>]"
  let ?c = "\<lparr>legacyInOperator = False\<rparr>"
  have n: "?b \<noteq> []" by simp
  have t: "build ?b = Some ?x" by (simp add: build_def)
  have r: "filterQueryPart ?c ?x = Inr ''not (isActive eq true)''" by code_simp
  from not_wraps_whole_expression [of ?b ?c] n t r show ?thesis by auto
qed

subsection \<open>Precedence\<close>










subsection \<open>Lambda parameters\<close>

text \<open>
  On the path from a lambda to a lambda nested directly in it the parameter advances by one
  character and the fields are prefixed with the parameter in scope.
\<close>

lemma getPrefixedField_prefixed:
  "p \<noteq> [] \<Longrightarrow>
   getPrefixedField f (Some p) = (if f = ''s'' \<or> f = p \<or> f = [] then p else p @ ''/'' @ f)"
  by (simp add: getPrefixedField_def)

lemma nextCharCode_s: "nextCharCode (CHR ''s'') = CHR ''t''"
  by code_simp

lemma nextCharCode_t: "nextCharCode (CHR ''t'') = CHR ''u''"
  by code_simp

lemma nextCharCode_succ:
  "(of_char ch :: nat) < 255 \<Longrightarrow> (of_char (nextCharCode ch) :: nat) = of_char ch + 1"
  by (simp add: nextCharCode_def)

lemma currentParamOf_values:
  "currentParamOf None = ''s''" "currentParamOf (Some ''s'') = ''t''"
  "currentParamOf (Some ''t'') = ''u''"
  by (simp_all add: currentParamOf_def nextCharCode_s nextCharCode_t)

lemma visitLambdaFilter_nested:
  "opr \<noteq> [] \<Longrightarrow>
   visitLambdaFilter c (Lambda f opr (Lambda f' opr' e)) p =
     (case visitLambdaFilter c (Lambda f' opr' e) (Some (currentParamOf p)) of
        Inl err \<Rightarrow> Inl err
      | Inr nestedQuery \<Rightarrow>
          Inr (lambdaText (getPrefixedField f p) opr (currentParamOf p) nestedQuery))"
  by (simp add: visitLambdaFilter.simps [of c "Lambda f opr (Lambda f' opr' e)" p] Let_def)

lemma visitLambdaFilter_basic:
  "opr \<noteq> [] \<Longrightarrow> val b \<noteq> None \<Longrightarrow>
   visitLambdaFilter c (Lambda f opr (Basic b)) p =
     (case visitBasicFilter (prefixedExpression b (currentParamOf p)) of
        Inl err \<Rightarrow> Inl err
      | Inr subQuery \<Rightarrow>
          Inr (lambdaText (getPrefixedField f p) opr (currentParamOf p) subQuery))"
  by (simp add: visitLambdaFilter.simps [of c "Lambda f opr (Basic b)" p] Let_def)

lemma three_nested_lambdas:
  assumes "o1 \<noteq> []" "o2 \<noteq> []" "o3 \<noteq> []" "val b \<noteq> None"
  shows "visitLambdaFilter c (Lambda f1 o1 (Lambda f2 o2 (Lambda f3 o3 (Basic b)))) None =
     (case visitBasicFilter (prefixedExpression b ''u'') of
        Inl err \<Rightarrow> Inl err
      | Inr q \<Rightarrow>
          Inr (lambdaText f1 o1 ''s''
                (lambdaText (getPrefixedField f2 (Some ''s'')) o2 ''t''
                  (lambdaText (getPrefixedField f3 (Some ''t'')) o3 ''u'' q))))"
  using assms
  by (simp add: visitLambdaFilter_nested visitLambdaFilter_basic currentParamOf_values
        getPrefixedField_def split: sum.splits)

text \<open>
  C7 (the code at the failing input).  A Negation among the children of a lambda's Combined
  expression is rendered without the parameter in scope: the lambda under it binds
  \<^verbatim>\<open>s\<close> again, not \<^verbatim>\<open>t\<close>, and its field \<^verbatim>\<open>tags\<close> is not prefixed, while the sibling
  comparison is (\<^verbatim>\<open>s/price\<close>).
\<close>

theorem lambda_prefix_lost_under_negation:
  "visitLambdaFilter \<lparr>legacyInOperator = False\<rparr>
     (Lambda ''items'' ''any''
        (Combined And
           [Negated (Lambda ''tags'' ''any'' (Basic (comparison ''s'' ''eq'' (VNum ''1'')))),
            Basic (comparison ''price'' ''gt'' (VNum ''5''))])) None =
     Inr ''items/any(s: (not (tags/any(s: s eq 1)) and s/price gt 5))''"
  by code_simp

subsection \<open>Comparisons: null values and string escaping\<close>

lemma quotePairs_skip: "c \<noteq> CHR 0x27 \<Longrightarrow> quotePairs (c # xs) = quotePairs xs"
  by (cases xs) simp_all

lemma escapeQuotes_doubleQuotes: "escapeQuotes s = doubleQuotes s"
  by (induction s) (simp_all add: doubleQuotes_def)

lemma quotePairs_doubleQuotes: "quotePairs (doubleQuotes s) = Some (count_list s (CHR 0x27))"
proof (induction s)
  case Nil
  show ?case by (simp add: doubleQuotes_def)
next
  case (Cons c cs)
  have step: "doubleQuotes (c # cs) =
      (if c = CHR 0x27 then CHR 0x27 # CHR 0x27 # doubleQuotes cs else c # doubleQuotes cs)"
    by (simp add: doubleQuotes_def)
  show ?case using Cons by (simp add: step quotePairs_skip)
qed

lemma apostrophe_code: "(of_char (CHR 0x27) :: nat) = 39"
  by simp

lemma lowerChar_quote: "(lowerChar c = CHR 0x27) = (c = CHR 0x27)"
proof -
  have a: "((of_char (lowerChar c) :: nat) = 39) = ((of_char c :: nat) = 39)"
    by (auto simp: lowerChar_def Let_def)
  have b: "\<And>d. ((of_char d :: nat) = 39) = (d = CHR 0x27)"
    unfolding apostrophe_code [symmetric] by (rule of_char_eq_iff)
  from a show ?thesis unfolding b .
qed

lemma count_toLowerCase: "count_list (toLowerCase s) (CHR 0x27) = count_list s (CHR 0x27)"
  by (induction s) (simp_all add: toLowerCase_def lowerChar_quote)

lemma foldl_transformCall:
  "foldl (\<lambda>acc t. t @ CHR ''('' # acc @ '')'') x ts = foldr transformCall (rev ts) x"
  by (induction ts arbitrary: x) (simp_all add: transformCall_def)

lemma getTransformedField_claimed: "getTransformedField b = claimedTransformedField b"
  by (simp add: getTransformedField_def claimedTransformedField_def foldl_transformCall
        transformCall_def Let_def)

lemma validateOperator_eq_string: "validateOperator (getValueType (VStr s)) ''eq'' = Inr ()"
  by (simp add: validateOperator_def isValidOperator_def operatorTypeMap_def)

lemma toISOString_error: "toISOString d = Inl e \<Longrightarrow> \<exists>m. e = RangeError m"
  by (cases d) auto

lemma formatValue_error:
  "formatValue v = Inl e \<Longrightarrow> (\<exists>t. e = UnsupportedValueType t) \<or> (\<exists>m. e = RangeError m)"
  by (cases v) (auto dest: toISOString_error)

lemma mapE_error: "mapE f xs = Inl e \<Longrightarrow> \<exists>x \<in> set xs. f x = Inl e"
  by (induction xs) (auto split: sum.splits)

lemma processFunction_error:
  "processFunction fn fld = Inl e \<Longrightarrow> \<forall>opr k. e \<noteq> InvalidOperator opr k"
proof (cases fn)
  case (Concat vs)
  assume "processFunction fn fld = Inl e"
  with Concat have "mapE formatValue vs = Inl e" by (simp split: sum.splits)
  then show ?thesis using mapE_error formatValue_error by blast
next
  case (Substring st len)
  assume "processFunction fn fld = Inl e"
  with Substring have "mapE formatValue (st # (case len of None \<Rightarrow> [] | Some l \<Rightarrow> [l])) = Inl e"
    by (simp split: sum.splits)
  then show ?thesis using mapE_error formatValue_error by blast
next
  case (DateOf f)
  assume "processFunction fn fld = Inl e"
  with DateOf show ?thesis by (cases f) simp_all
next
  case (TimeOf f)
  assume "processFunction fn fld = Inl e"
  with TimeOf show ?thesis by (cases f) simp_all
qed (auto split: sum.splits option.splits if_splits dest: formatValue_error)

text \<open>
  C4 (counterexample).  A comparison with the value \<^verbatim>\<open>null\<close> and the function descriptor
  \<^verbatim>\<open>{ type: 'indexof', value: { fieldReference: ... } }\<close>: the argument is an object, which
  \<^verbatim>\<open>formatValue\<close> rejects with the unsupported-value-type error.
\<close>

theorem null_comparison_unsupported_value_counterexample:
  "val ((comparison ''name'' ''eq'' VNull)\<lparr>func := Some (Indexof (VUnknown ''object''))\<rparr>) =
     Some VNull \<and>
   visitBasicFilter
     ((comparison ''name'' ''eq'' VNull)\<lparr>func := Some (Indexof (VUnknown ''object''))\<rparr>) =
     Inl (UnsupportedValueType ''object'')"
  by (simp add: comparison_def visitBasicFilter_def functionOr_def)

text \<open>
  C4 (as amended).  For a comparison whose value is \<^verbatim>\<open>null\<close> the value is not classified and
  the operator is not validated.  Without a function descriptor the visitor renders the
  transformed field, the operator and \<^verbatim>\<open>null\<close>, for every operator.  With a function
  descriptor it renders the function call on the plain field, the operator and \<^verbatim>\<open>null\<close>
  whenever the descriptor renders (as \<^verbatim>\<open>length\<close> always does), and fails with the
  descriptor's error otherwise.  It never fails with the invalid-operator error.
\<close>

theorem null_comparison:
  assumes "val b = Some VNull"
  shows "(func b = None \<longrightarrow>
            visitBasicFilter b =
              Inr (claimedTransformedField b @ '' '' @ operator b @ '' null'')) \<and>
         (\<forall>fn. func b = Some fn \<longrightarrow>
            visitBasicFilter b =
              (case processFunction fn (field b) of
                 Inl e \<Rightarrow> Inl e
               | Inr call \<Rightarrow> Inr (call @ '' '' @ operator b @ '' null''))) \<and>
         (func b = Some LengthOf \<longrightarrow>
            visitBasicFilter b =
              Inr (''length('' @ field b @ '') '' @ operator b @ '' null'')) \<and>
         (\<forall>opr k. visitBasicFilter b \<noteq> Inl (InvalidOperator opr k))"
proof -
  have n: "func b = None \<longrightarrow>
            visitBasicFilter b =
              Inr (claimedTransformedField b @ '' '' @ operator b @ '' null'')"
    using assms
    by (simp add: visitBasicFilter_def functionOr_def comparisonText_def
          getTransformedField_claimed)
  have f: "\<forall>fn. func b = Some fn \<longrightarrow>
            visitBasicFilter b =
              (case processFunction fn (field b) of
                 Inl e \<Rightarrow> Inl e
               | Inr call \<Rightarrow> Inr (call @ '' '' @ operator b @ '' null''))"
    using assms
    by (simp add: visitBasicFilter_def functionOr_def comparisonText_def split: sum.splits)
  have l: "func b = Some LengthOf \<longrightarrow>
            visitBasicFilter b =
              Inr (''length('' @ field b @ '') '' @ operator b @ '' null'')"
    using f by (simp add: callText_def)
  have "\<And>e. visitBasicFilter b = Inl e \<Longrightarrow> \<forall>opr k. e \<noteq> InvalidOperator opr k"
  proof -
    fix e assume e: "visitBasicFilter b = Inl e"
    with n obtain fn where fn: "func b = Some fn" by (cases "func b") auto
    with f e have "processFunction fn (field b) = Inl e" by (auto split: sum.splits)
    then show "\<forall>opr k. e \<noteq> InvalidOperator opr k" by (rule processFunction_error)
  qed
  then have "\<forall>opr k. visitBasicFilter b \<noteq> Inl (InvalidOperator opr k)" by blast
  with n f l show ?thesis by blast
qed

theorem null_comparison_witness:
  "visitBasicFilter (comparison ''age'' ''gt'' VNull) = Inr ''age gt null'' \<and>
   validateOperator (getValueType VNull) ''gt'' = Inl (InvalidOperator ''gt'' ''null'') \<and>
   visitBasicFilter
     ((comparison ''name'' ''ne'' VNull)\<lparr>transform := TList [Trim, Toupper], ignoreCase := True\<rparr>) =
     Inr ''toupper(trim(tolower(name))) ne null'' \<and>
   visitBasicFilter
     ((comparison ''name'' ''ge'' VNull)
        \<lparr>transform := TList [Trim], func := Some (Indexof (VStr ''x''))\<rparr>) =
     Inr (''indexof(name, '' @ [CHR 0x27] @ ''x'' @ [CHR 0x27] @ '') ge null'')"
proof -
  let ?a = "comparison ''age'' ''gt'' VNull"
  let ?b = "(comparison ''name'' ''ne'' VNull)\<lparr>transform := TList [Trim, Toupper], ignoreCase := True\<rparr>"
  let ?c = "(comparison ''name'' ''ge'' VNull)
        \<lparr>transform := TList [Trim], func := Some (Indexof (VStr ''x''))\<rparr>"
  have va: "val ?a = Some VNull" and vb: "val ?b = Some VNull" and vc: "val ?c = Some VNull"
    by (simp_all add: comparison_def)
  have fa: "func ?a = None" and fb: "func ?b = None"
    and fc: "func ?c = Some (Indexof (VStr ''x''))"
    by (simp_all add: comparison_def)
  have ta: "claimedTransformedField ?a = ''age''"
    by (simp add: comparison_def claimedTransformedField_def)
  have tb: "claimedTransformedField ?b = ''toupper(trim(tolower(name)))''"
    by (simp add: comparison_def claimedTransformedField_def transformCall_def)
  have oa: "operator ?a = ''gt''" and ob: "operator ?b = ''ne''" and oc: "operator ?c = ''ge''"
    by (simp_all add: comparison_def)
  have i: "validateOperator (getValueType VNull) ''gt'' = Inl (InvalidOperator ''gt'' ''null'')"
    by (simp add: validateOperator_def isValidOperator_def operatorTypeMap_def)
  have 1: "visitBasicFilter ?a = Inr ''age gt null''"
    using null_comparison [OF va] fa by (simp add: ta oa)
  have 2: "visitBasicFilter ?b = Inr ''toupper(trim(tolower(name))) ne null''"
    using null_comparison [OF vb] fb by (simp add: tb ob)
  have 3: "visitBasicFilter ?c =
      Inr (''indexof(name, '' @ [CHR 0x27] @ ''x'' @ [CHR 0x27] @ '') ge null'')"
    using null_comparison [OF vc] fc by (simp add: oc comparison_def callText_def quoted_def)
  from 1 2 3 i show ?thesis by blast
qed


text \<open>
  C8 (counterexample).  With quote removal set, the \<^verbatim>\<open>eq\<close> comparison with the value
  \<^verbatim>\<open>O'Brien\<close> renders the escaped value without the enclosing quotes.
\<close>

theorem removeQuotes_unquoted_counterexample:
  "visitBasicFilter
     ((comparison ''name'' ''eq''
         (VStr [CHR ''O'', CHR 0x27, CHR ''B'', CHR ''r'', CHR ''i'', CHR ''e'', CHR ''n'']))
        \<lparr>removeQuotes := True\<rparr>) =
     Inr [CHR ''n'', CHR ''a'', CHR ''m'', CHR ''e'', CHR '' '', CHR ''e'', CHR ''q'', CHR '' '',
          CHR ''O'', CHR 0x27, CHR 0x27, CHR ''B'', CHR ''r'', CHR ''i'', CHR ''e'', CHR ''n'']"
  by code_simp

text \<open>
  C8 (as amended).  For an \<^verbatim>\<open>eq\<close> comparison with a string value \<open>s\<close> the escaped value
  (of \<open>s\<close>, case-folded when the case-fold flag is set) has every apostrophe paired, as many
  pairs as \<open>s\<close> has apostrophes.  The literal is the escaped value in single quotes, or bare
  when quote removal is set.  Without a function descriptor the visitor renders the transformed
  field, \<^verbatim>\<open>eq\<close> and the literal; with a descriptor other than the three boolean string
  predicates it renders the function call (on the field, inside \<^verbatim>\<open>tolower\<close> when the case-fold
  flag is set), \<^verbatim>\<open>eq\<close> and the literal, or fails as the descriptor does; with one of the three
  predicates it renders the function call alone.
\<close>

theorem string_escaping:
  assumes "val b = Some (VStr s)" and "operator b = ''eq''"
  shows "quotePairs (escapedValue b s) = Some (count_list s (CHR 0x27)) \<and>
         (func b = None \<longrightarrow>
            visitBasicFilter b =
              Inr (claimedTransformedField b @ '' eq '' @ stringLiteral b s)) \<and>
         (\<forall>fn. func b = Some fn \<longrightarrow>
            functionType fn \<notin> {''contains'', ''startswith'', ''endswith''} \<longrightarrow>
            visitBasicFilter b =
              (case processFunction fn
                      (if ignoreCase b then ''tolower('' @ field b @ '')'' else field b) of
                 Inl e \<Rightarrow> Inl e
               | Inr call \<Rightarrow> Inr (call @ '' eq '' @ stringLiteral b s))) \<and>
         (\<forall>fn. func b = Some fn \<longrightarrow>
            functionType fn \<in> {''contains'', ''startswith'', ''endswith''} \<longrightarrow>
            visitBasicFilter b =
              processFunction fn
                (if ignoreCase b then ''tolower('' @ field b @ '')'' else field b)) \<and>
         (func b = Some LengthOf \<longrightarrow>
            visitBasicFilter b =
              Inr (''length('' @ (if ignoreCase b then ''tolower('' @ field b @ '')'' else field b) @
                   '') eq '' @ stringLiteral b s))"
proof -
  have k: "getValueType (VStr s) \<noteq> ''unknown''" by simp
  have unfold: "visitBasicFilter b =
     (case func b of
        Some fn \<Rightarrow>
          if functionType fn \<in> set booleanPredicates
          then processFunction fn (fieldForFunction b)
          else (case processFunction fn (fieldForFunction b) of
                  Inl e \<Rightarrow> Inl e
                | Inr leftSide \<Rightarrow> Inr (comparisonText leftSide ''eq'' (stringLiteral b s)))
      | None \<Rightarrow> Inr (comparisonText (getTransformedField b) ''eq'' (stringLiteral b s)))"
    using assms k validateOperator_eq_string [of s]
    by (cases "func b")
       (simp_all add: visitBasicFilter_def Let_def stringLiteral_def escapedValue_def
          escapeQuotes_doubleQuotes quoted_def
          del: getValueType.simps split: sum.splits)
  have p: "quotePairs (escapedValue b s) = Some (count_list s (CHR 0x27))"
    by (simp add: escapedValue_def quotePairs_doubleQuotes count_toLowerCase)
  have n: "func b = None \<longrightarrow>
            visitBasicFilter b =
              Inr (claimedTransformedField b @ '' eq '' @ stringLiteral b s)"
    by (simp add: unfold comparisonText_def getTransformedField_claimed)
  have f: "\<forall>fn. func b = Some fn \<longrightarrow>
            functionType fn \<notin> {''contains'', ''startswith'', ''endswith''} \<longrightarrow>
            visitBasicFilter b =
              (case processFunction fn
                      (if ignoreCase b then ''tolower('' @ field b @ '')'' else field b) of
                 Inl e \<Rightarrow> Inl e
               | Inr call \<Rightarrow> Inr (call @ '' eq '' @ stringLiteral b s))"
    by (auto simp: unfold comparisonText_def booleanPredicates_def fieldForFunction_def
             split: sum.splits)
  have g: "\<forall>fn. func b = Some fn \<longrightarrow>
            functionType fn \<in> {''contains'', ''startswith'', ''endswith''} \<longrightarrow>
            visitBasicFilter b =
              processFunction fn
                (if ignoreCase b then ''tolower('' @ field b @ '')'' else field b)"
    by (auto simp: unfold booleanPredicates_def fieldForFunction_def)
  have l: "func b = Some LengthOf \<longrightarrow>
            visitBasicFilter b =
              Inr (''length('' @ (if ignoreCase b then ''tolower('' @ field b @ '')'' else field b) @
                   '') eq '' @ stringLiteral b s)"
    by (simp add: unfold comparisonText_def booleanPredicates_def fieldForFunction_def
          callText_def)
  from p n f g l show ?thesis by blast
qed


theorem string_escaping_witness:
  "visitBasicFilter
     (comparison ''name'' ''eq''
        (VStr [CHR ''O'', CHR 0x27, CHR ''B'', CHR ''r'', CHR ''i'', CHR ''e'', CHR ''n''])) =
     Inr [CHR ''n'', CHR ''a'', CHR ''m'', CHR ''e'', CHR '' '', CHR ''e'', CHR ''q'', CHR '' '',
          CHR 0x27, CHR ''O'', CHR 0x27, CHR 0x27, CHR ''B'', CHR ''r'', CHR ''i'', CHR ''e'',
          CHR ''n'', CHR 0x27] \<and>
   visitBasicFilter
     ((comparison ''n'' ''eq'' (VStr [CHR 0xC4, CHR 0x27, CHR ''B'']))
        \<lparr>transform := TList [Trim], ignoreCase := True\<rparr>) =
     Inr [CHR ''t'', CHR ''r'', CHR ''i'', CHR ''m'', CHR ''('', CHR ''t'', CHR ''o'', CHR ''l'',
          CHR ''o'', CHR ''w'', CHR ''e'', CHR ''r'', CHR ''('', CHR ''n'', CHR '')'', CHR '')'',
          CHR '' '', CHR ''e'', CHR ''q'', CHR '' '',
          CHR 0x27, CHR 0xE4, CHR 0x27, CHR 0x27, CHR ''b'', CHR 0x27] \<and>
   visitBasicFilter
     ((comparison ''n'' ''eq'' (VStr [CHR ''a'', CHR 0x27]))
        \<lparr>func := Some (Concat [VStr ''x''])\<rparr>) =
     Inr [CHR ''c'', CHR ''o'', CHR ''n'', CHR ''c'', CHR ''a'', CHR ''t'', CHR ''('', CHR ''n'',
          CHR '','', CHR '' '', CHR 0x27, CHR ''x'', CHR 0x27, CHR '')'',
          CHR '' '', CHR ''e'', CHR ''q'', CHR '' '',
          CHR 0x27, CHR ''a'', CHR 0x27, CHR 0x27, CHR 0x27] \<and>
   quotePairs [CHR 0xE4, CHR 0x27, CHR 0x27, CHR ''b''] = Some 1"
proof -
  let ?s1 = "[CHR ''O'', CHR 0x27, CHR ''B'', CHR ''r'', CHR ''i'', CHR ''e'', CHR ''n'']"
  let ?b1 = "comparison ''name'' ''eq'' (VStr ?s1)"
  let ?s2 = "[CHR 0xC4, CHR 0x27, CHR ''B'']"
  let ?b2 = "(comparison ''n'' ''eq'' (VStr ?s2))\<lparr>transform := TList [Trim], ignoreCase := True\<rparr>"
  let ?s3 = "[CHR ''a'', CHR 0x27]"
  let ?b3 = "(comparison ''n'' ''eq'' (VStr ?s3))\<lparr>func := Some (Concat [VStr ''x''])\<rparr>"
  have v1: "val ?b1 = Some (VStr ?s1)" and o1: "operator ?b1 = ''eq''" and f1: "func ?b1 = None"
    by (simp_all add: comparison_def)
  have v2: "val ?b2 = Some (VStr ?s2)" and o2: "operator ?b2 = ''eq''" and f2: "func ?b2 = None"
    by (simp_all add: comparison_def)
  have v3: "val ?b3 = Some (VStr ?s3)" and o3: "operator ?b3 = ''eq''"
    and f3: "func ?b3 = Some (Concat [VStr ''x''])"
    by (simp_all add: comparison_def)
  have low: "toLowerCase ?s2 = [CHR 0xE4, CHR 0x27, CHR ''b'']" by code_simp
  have t1: "claimedTransformedField ?b1 = ''name''"
    by (simp add: comparison_def claimedTransformedField_def)
  have t2: "claimedTransformedField ?b2 = ''trim(tolower(n))''"
    by (simp add: comparison_def claimedTransformedField_def transformCall_def)
  have l1: "stringLiteral ?b1 ?s1 =
      [CHR 0x27, CHR ''O'', CHR 0x27, CHR 0x27, CHR ''B'', CHR ''r'', CHR ''i'', CHR ''e'',
       CHR ''n'', CHR 0x27]"
    by (simp add: comparison_def stringLiteral_def escapedValue_def doubleQuotes_def)
  have e2: "escapedValue ?b2 ?s2 = [CHR 0xE4, CHR 0x27, CHR 0x27, CHR ''b'']"
    using low by (simp add: comparison_def escapedValue_def doubleQuotes_def)
  have l2: "stringLiteral ?b2 ?s2 = [CHR 0x27, CHR 0xE4, CHR 0x27, CHR 0x27, CHR ''b'', CHR 0x27]"
    using e2 by (simp add: stringLiteral_def comparison_def)
  have l3: "stringLiteral ?b3 ?s3 = [CHR 0x27, CHR ''a'', CHR 0x27, CHR 0x27, CHR 0x27]"
    by (simp add: comparison_def stringLiteral_def escapedValue_def doubleQuotes_def)
  have c3: "functionType (Concat [VStr ''x'']) \<notin> {''contains'', ''startswith'', ''endswith''}"
    by simp
  have i3: "\<not> ignoreCase ?b3" by (simp add: comparison_def)
  have p3: "processFunction (Concat [VStr ''x'']) (field ?b3) =
      Inr [CHR ''c'', CHR ''o'', CHR ''n'', CHR ''c'', CHR ''a'', CHR ''t'', CHR ''('', CHR ''n'',
          CHR '','', CHR '' '', CHR 0x27, CHR ''x'', CHR 0x27, CHR '')'']"
    by (simp add: comparison_def callText_def quoted_def)
  have 1: "visitBasicFilter ?b1 = Inr (''name'' @ '' eq '' @ stringLiteral ?b1 ?s1)"
    using string_escaping [OF v1 o1] f1 t1 by simp
  have 2: "visitBasicFilter ?b2 = Inr (''trim(tolower(n))'' @ '' eq '' @ stringLiteral ?b2 ?s2)"
    using string_escaping [OF v2 o2] f2 t2 by simp
  have 3: "visitBasicFilter ?b3 =
      (case processFunction (Concat [VStr ''x'']) (field ?b3) of
         Inl e \<Rightarrow> Inl e
       | Inr call \<Rightarrow> Inr (call @ '' eq '' @ stringLiteral ?b3 ?s3))"
    using string_escaping [OF v3 o3] f3 c3 i3 by simp
  have 4: "quotePairs (escapedValue ?b2 ?s2) = Some (count_list ?s2 (CHR 0x27))"
    using string_escaping [OF v2 o2] by blast
  have 5: "quotePairs [CHR 0xE4, CHR 0x27, CHR 0x27, CHR ''b''] = Some 1"
    using 4 unfolding e2 by simp
  show ?thesis
    using 1 2 3 5 unfolding l1 l2 l3 p3 by simp
qed

subsection \<open>Membership\<close>

lemma isHexDigit_claimed: "isHexDigit c = claimedHex c"
  by (auto simp: isHexDigit_def claimedHex_def)

lemma guidPattern_length: "length guidPattern = 36"
  by (simp add: guidPattern_def)

lemma list36:
  assumes "length (s :: 'a list) = 36"
  obtains c0 c1 c2 c3 c4 c5 c6 c7 c8 c9 c10 c11 c12 c13 c14 c15 c16 c17 c18 c19 c20 c21 c22 c23
    c24 c25 c26 c27 c28 c29 c30 c31 c32 c33 c34 c35
  where "s = [c0, c1, c2, c3, c4, c5, c6, c7, c8, c9, c10, c11, c12, c13, c14, c15, c16, c17,
              c18, c19, c20, c21, c22, c23, c24, c25, c26, c27, c28, c29, c30, c31, c32, c33,
              c34, c35]"
  using assms by (auto simp: numeral_eq_Suc length_Suc_conv)

lemma isGuidString_claimed: "isGuidString s = claimedGuid s"
proof (cases "length s = 36")
  case False
  have "isGuidString s \<Longrightarrow> length s = 36"
    using list_all2_lengthD [of _ s guidPattern] by (simp add: isGuidString_def guidPattern_length)
  with False show ?thesis by (auto simp: claimedGuid_def)
next
  case True
  then obtain c0 c1 c2 c3 c4 c5 c6 c7 c8 c9 c10 c11 c12 c13 c14 c15 c16 c17 c18 c19 c20 c21 c22 c23
    c24 c25 c26 c27 c28 c29 c30 c31 c32 c33 c34 c35
  where s: "s = [c0, c1, c2, c3, c4, c5, c6, c7, c8, c9, c10, c11, c12, c13, c14, c15, c16, c17,
              c18, c19, c20, c21, c22, c23, c24, c25, c26, c27, c28, c29, c30, c31, c32, c33,
              c34, c35]"
    by (rule list36)
  show ?thesis
    unfolding s isGuidString_def guidPattern_def claimedGuid_def hexBlock_def
    by (simp add: isHexDigit_claimed numeral_eq_Suc) blast
qed


lemma join_repeated: "join sep xs = repeated sep xs"
proof (induction xs)
  case Nil
  show ?case by simp
next
  case (Cons x xs)
  then show ?case by (cases xs) simp_all
qed

lemma formatInValue_literalByKind:
  "literalByKind v = Some l \<Longrightarrow> formatInValue v = Inr l"
proof (cases v)
  case (VDate d)
  assume "literalByKind v = Some l"
  with VDate show ?thesis by (cases d) (simp_all add: literalByKind_def)
qed (auto simp: literalByKind_def escapeQuotes_doubleQuotes isGuidString_claimed quoted_def
        showBool_def)

lemma formatInValue_no_literal:
  "literalByKind v = None \<Longrightarrow> \<exists>e. formatInValue v = Inl e"
proof (cases v)
  case (VDate d)
  assume "literalByKind v = None"
  with VDate show ?thesis by (cases d) (simp_all add: literalByKind_def)
qed (auto simp: literalByKind_def)

lemma mapE_formatInValue:
  "map literalByKind vs = map Some ls \<Longrightarrow> mapE formatInValue vs = Inr ls"
proof (induction vs arbitrary: ls)
  case Nil
  then show ?case by simp
next
  case (Cons v vs)
  then obtain l ls' where ls: "ls = l # ls'" by (cases ls) auto
  with Cons.prems have "literalByKind v = Some l" and "map literalByKind vs = map Some ls'"
    by simp_all
  with Cons.IH ls show ?case by (simp add: formatInValue_literalByKind)
qed

lemma mapE_fails: "x \<in> set xs \<Longrightarrow> f x = Inl e \<Longrightarrow> \<exists>e'. mapE f xs = Inl e'"
  by (induction xs) (auto split: sum.splits)

text \<open>
  C6 (counterexample).  A membership list that holds an invalid date does not render in either
  mode: \<^verbatim>\<open>toISOString\<close> throws.
\<close>

theorem invalid_date_membership_counterexample:
  "filterQueryPart \<lparr>legacyInOperator = False\<rparr> (In ''createdAt'' [VDate InvalidDate]) =
     Inl (RangeError ''Invalid time value'') \<and>
   filterQueryPart \<lparr>legacyInOperator = True\<rparr> (In ''createdAt'' [VDate InvalidDate]) =
     Inl (RangeError ''Invalid time value'')"
  by (simp add: filterQueryPart_def visitInFilter_def)

text \<open>
  C6 (as amended).  When every value of the list has a literal by its kind, the membership node
  renders as \<^verbatim>\<open>f in (v1, v2, ...)\<close> in default mode and as
  \<^verbatim>\<open>(f eq v1 or f eq v2 or ...)\<close> in legacy mode, over those literals.  When some value has
  none (an invalid date, a value of unknown kind), neither mode renders.
\<close>

theorem membership_rendering:
  "(map literalByKind vs = map Some ls \<longrightarrow>
      filterQueryPart \<lparr>legacyInOperator = False\<rparr> (In f vs) =
        Inr (f @ '' in ('' @ repeated '', '' ls @ '')'') \<and>
      filterQueryPart \<lparr>legacyInOperator = True\<rparr> (In f vs) =
        Inr (''('' @ repeated '' or '' (map (\<lambda>l. f @ '' eq '' @ l) ls) @ '')'')) \<and>
   (None \<in> set (map literalByKind vs) \<longrightarrow>
      (\<exists>e. filterQueryPart \<lparr>legacyInOperator = False\<rparr> (In f vs) = Inl e) \<and>
      (\<exists>e. filterQueryPart \<lparr>legacyInOperator = True\<rparr> (In f vs) = Inl e))"
proof (intro conjI impI)
  assume a: "map literalByKind vs = map Some ls"
  show "filterQueryPart \<lparr>legacyInOperator = False\<rparr> (In f vs) =
        Inr (f @ '' in ('' @ repeated '', '' ls @ '')'')"
    using mapE_formatInValue [OF a]
    by (simp add: filterQueryPart_def visitInFilter_def join_repeated)
  show "filterQueryPart \<lparr>legacyInOperator = True\<rparr> (In f vs) =
        Inr (''('' @ repeated '' or '' (map (\<lambda>l. f @ '' eq '' @ l) ls) @ '')'')"
    using mapE_formatInValue [OF a]
    by (simp add: filterQueryPart_def visitInFilter_def join_repeated)
next
  assume "None \<in> set (map literalByKind vs)"
  then obtain v where v: "v \<in> set vs" "literalByKind v = None" by auto
  from formatInValue_no_literal [OF v(2)] obtain e where "formatInValue v = Inl e" by blast
  from mapE_fails [where f = formatInValue, OF v(1) this] obtain e' where e': "mapE formatInValue vs = Inl e'" by blast
  show "\<exists>e. filterQueryPart \<lparr>legacyInOperator = False\<rparr> (In f vs) = Inl e"
    using e' by (simp add: filterQueryPart_def visitInFilter_def)
  show "\<exists>e. filterQueryPart \<lparr>legacyInOperator = True\<rparr> (In f vs) = Inl e"
    using e' by (simp add: filterQueryPart_def visitInFilter_def)
qed


theorem membership_rendering_witness:
  "filterQueryPart \<lparr>legacyInOperator = False\<rparr>
     (In ''status''
        [VStr [CHR ''O'', CHR 0x27, CHR ''R''], VNum ''0.5'', VBool True,
         VDate (ValidDate 1705314600000 ''2024-01-15T10:30:00.000Z''),
         VDate (ValidDate 0 ''1970-01-01T00:00:00.000Z''),
         VStr ''550e8400-E29B-41d4-a716-446655440000'', VNull]) =
     Inr (''status in ('' @ [CHR 0x27, CHR ''O'', CHR 0x27, CHR 0x27, CHR ''R'', CHR 0x27] @
          '', 0.5, true, 2024-01-15T10:30:00.000Z, 1970-01-01T00:00:00.000Z, '' @
          ''550e8400-E29B-41d4-a716-446655440000, null)'') \<and>
   filterQueryPart \<lparr>legacyInOperator = True\<rparr>
     (In ''status''
        [VStr [CHR ''O'', CHR 0x27, CHR ''R''], VNum ''0.5'', VBool True,
         VDate (ValidDate 1705314600000 ''2024-01-15T10:30:00.000Z''),
         VDate (ValidDate 0 ''1970-01-01T00:00:00.000Z''),
         VStr ''550e8400-E29B-41d4-a716-446655440000'', VNull]) =
     Inr (''(status eq '' @ [CHR 0x27, CHR ''O'', CHR 0x27, CHR 0x27, CHR ''R'', CHR 0x27] @
          '' or status eq 0.5 or status eq true or status eq 2024-01-15T10:30:00.000Z'' @
          '' or status eq 1970-01-01T00:00:00.000Z'' @
          '' or status eq 550e8400-E29B-41d4-a716-446655440000 or status eq null)'') \<and>
   (\<exists>e. filterQueryPart \<lparr>legacyInOperator = False\<rparr>
          (In ''status'' [VNull, VUnknown ''undefined'']) = Inl e)"
proof -
  let ?vs = "[VStr [CHR ''O'', CHR 0x27, CHR ''R''], VNum ''0.5'', VBool True,
         VDate (ValidDate 1705314600000 ''2024-01-15T10:30:00.000Z''),
         VDate (ValidDate 0 ''1970-01-01T00:00:00.000Z''),
         VStr ''550e8400-E29B-41d4-a716-446655440000'', VNull]"
  let ?ls = "[[CHR 0x27, CHR ''O'', CHR 0x27, CHR 0x27, CHR ''R'', CHR 0x27], ''0.5'', ''true'',
         ''2024-01-15T10:30:00.000Z'', ''1970-01-01T00:00:00.000Z'',
         ''550e8400-E29B-41d4-a716-446655440000'', ''null'']"
  have q: "\<not> claimedGuid [CHR ''O'', CHR 0x27, CHR ''R'']" by (simp add: claimedGuid_def)
  have g: "claimedGuid ''550e8400-E29B-41d4-a716-446655440000''" by code_simp
  have m: "map literalByKind ?vs = map Some ?ls"
    by (simp add: literalByKind_def q g doubleQuotes_def)
  have u: "None \<in> set (map literalByKind [VNull, VUnknown ''undefined''])"
    by (simp add: literalByKind_def)
  from membership_rendering [of ?vs ?ls "''status''"] m
       membership_rendering [of "[VNull, VUnknown ''undefined'']" "[]" "''status''"] u
  show ?thesis by simp
qed

end
